theory Spec2Isabelle
  imports Main "HOL-Library.Sublist"
begin

section \<open>Data model\<close>

text \<open>
  Go strings are byte sequences; \<open>string\<close> (a list of 8-bit characters) is the
  same thing. Record IDs (\<open>HostOverrideID\<close>, \<open>HostAliasID\<close>) are Go string types.
\<close>

text \<open>
  Modelled from the spec: \<open>endpoint.Endpoint\<close> is a type of the external-dns library, whose
  declaration is not part of this repository. The spec describes it as a tuple of
  (fully-qualified DNS name, record kind, ordered list of target values); the repository reads
  and writes exactly the fields \<open>DNSName\<close>, \<open>Targets\<close> and \<open>RecordType\<close>. The record kind
  is a Go string; api.go writes the literals "A" and "CNAME".
\<close>

record Endpoint =
  DNSName :: string
  Targets :: "string list"
  RecordType :: string

definition RecordTypeA :: string where
  "RecordTypeA = ''A''"

definition RecordTypeCNAME :: string where
  "RecordTypeCNAME = ''CNAME''"

text \<open>
  Modelled from the spec: \<open>endpoint.NewTargets\<close> is a function of the external-dns library.
  The repository calls it with one argument only; the spec's "single target = the record's
  stored target" and "retain only the first target value" make it the one-element list.
\<close>

definition NewTargets :: "string \<Rightarrow> string list" where
  "NewTargets t = [t]"

text \<open>
  Modelled from the spec: \<open>plan.Changes\<close> is a type of the external-dns library: the batch
  \<open>{Create, Delete, UpdateOld, UpdateNew}\<close>, where UpdateOld/UpdateNew are parallel sequences.
\<close>

record Changes =
  Create :: "Endpoint list"
  Delete :: "Endpoint list"
  UpdateOld :: "Endpoint list"
  UpdateNew :: "Endpoint list"

text \<open>
  Modelled from the spec: \<open>plan.Changes.HasChanges\<close> is a method of the external-dns library.
  The spec: "if the batch has no entries in any of the four lists, the operation is a no-op".
  \<open>ApplyChanges\<close> below takes the method as a parameter, so that what is proved of a batch
  with changes holds for the library's method whatever it computes; this definition is the
  spec's reading of it, used for the empty batch and in the concrete runs.
\<close>

definition HasChanges :: "Changes \<Rightarrow> bool" where
  "HasChanges c \<longleftrightarrow> Create c \<noteq> [] \<or> Delete c \<noteq> [] \<or> UpdateOld c \<noteq> [] \<or> UpdateNew c \<noteq> []"

text \<open>api.go, \<open>type HostOverride struct\<close>. The field names carry the prefix \<open>ho_\<close>.\<close>

record HostOverride =
  ho_ID :: string
  ho_Hostname :: string
  ho_Domain :: string
  ho_Server :: string

text \<open>api.go, \<open>type HostAlias struct\<close>. The field names carry the prefix \<open>ha_\<close>.\<close>

record HostAlias =
  ha_ID :: string
  ha_Enabled :: string
  ha_Host :: string
  ha_HostID :: string
  ha_Hostname :: string
  ha_Domain :: string
  ha_Description :: string

text \<open>The zero values \<open>api.HostOverride{}\<close> and \<open>api.HostAlias{HostID: id}\<close>.\<close>

definition HostOverride_zero :: HostOverride where
  "HostOverride_zero = \<lparr>ho_ID = [], ho_Hostname = [], ho_Domain = [], ho_Server = []\<rparr>"

definition HostAlias_for :: "string \<Rightarrow> HostAlias" where
  "HostAlias_for hid =
     \<lparr>ha_ID = [], ha_Enabled = [], ha_Host = [], ha_HostID = hid, ha_Hostname = [],
      ha_Domain = [], ha_Description = []\<rparr>"

text \<open>
  A Go call returns normally with a value, returns an error, or panics (index out of range).
\<close>

datatype 'a result = Ok 'a | Err string | Panic

section \<open>api.go: conversions between records and endpoints\<close>

text \<open>\<open>fmt.Sprintf("%s.%s", h, d)\<close>\<close>

definition dotted :: "string \<Rightarrow> string \<Rightarrow> string" where
  "dotted h d = h @ ''.'' @ d"

text \<open>
  \<open>strings.SplitN(s, ".", 2)\<close>: the string cut at its first dot, or the string alone when
  it has no dot.
\<close>

fun cut_dot :: "string \<Rightarrow> (string \<times> string) option" where
  "cut_dot [] = None"
| "cut_dot (c # cs) =
     (if c = CHR ''.'' then Some ([], cs)
      else (case cut_dot cs of None \<Rightarrow> None | Some (h, d) \<Rightarrow> Some (c # h, d)))"

definition SplitN_dot_2 :: "string \<Rightarrow> string list" where
  "SplitN_dot_2 s = (case cut_dot s of None \<Rightarrow> [s] | Some (h, d) \<Rightarrow> [h, d])"

definition ho_Endpoint :: "HostOverride \<Rightarrow> Endpoint" where
  "ho_Endpoint r =
     \<lparr>DNSName = dotted (ho_Hostname r) (ho_Domain r),
      Targets = NewTargets (ho_Server r),
      RecordType = ''A''\<rparr>"

text \<open>
  \<open>HostOverride.Update\<close>: \<open>parts[1]\<close> and \<open>ep.Targets[0]\<close> panic when out of range;
  \<open>None\<close> is the panic.
\<close>

definition ho_Update :: "HostOverride \<Rightarrow> Endpoint \<Rightarrow> HostOverride option" where
  "ho_Update r ep =
     (let parts = SplitN_dot_2 (DNSName ep) in
      if length parts < 2 then None
      else (case Targets ep of
              [] \<Rightarrow> None
            | t # _ \<Rightarrow>
                Some (r\<lparr>ho_Hostname := parts ! 0, ho_Domain := parts ! 1, ho_Server := t\<rparr>)))"

definition ho_DNSName :: "HostOverride \<Rightarrow> string" where
  "ho_DNSName r = dotted (ho_Hostname r) (ho_Domain r)"

definition ha_Endpoint :: "HostAlias \<Rightarrow> Endpoint" where
  "ha_Endpoint r =
     \<lparr>DNSName = dotted (ha_Hostname r) (ha_Domain r),
      Targets = NewTargets (ha_Host r),
      RecordType = ''CNAME''\<rparr>"

definition ha_Update :: "HostAlias \<Rightarrow> Endpoint \<Rightarrow> HostAlias option" where
  "ha_Update r ep =
     (let parts = SplitN_dot_2 (DNSName ep) in
      if length parts < 2 then None
      else (case Targets ep of
              [] \<Rightarrow> None
            | t # _ \<Rightarrow>
                Some (r\<lparr>ha_Hostname := parts ! 0, ha_Domain := parts ! 1, ha_Host := t\<rparr>)))"

definition ha_DNSName :: "HostAlias \<Rightarrow> string" where
  "ha_DNSName r = dotted (ha_Hostname r) (ha_Domain r)"

section \<open>The remote store interface\<close>

text \<open>
  \<open>type API interface\<close> of api.go. The backend behind it is abstract: a state of type \<open>'b\<close>
  that every call may read and change. A call that returns a value and an error is a sum
  (\<open>Inl\<close> the error's message); a call that returns an error only is an option (\<open>None\<close> is
  \<open>nil\<close>).
\<close>

record 'b API =
  ListHostOverrides :: "'b \<Rightarrow> (string + HostOverride list) \<times> 'b"
  CreateHostOverride :: "'b \<Rightarrow> HostOverride \<Rightarrow> (string + HostOverride) \<times> 'b"
  DeleteHostOverride :: "'b \<Rightarrow> HostOverride \<Rightarrow> string option \<times> 'b"
  UpdateHostOverride :: "'b \<Rightarrow> HostOverride \<Rightarrow> string option \<times> 'b"
  ListHostAliases :: "'b \<Rightarrow> string \<Rightarrow> (string + HostAlias list) \<times> 'b"
  CreateHostAlias :: "'b \<Rightarrow> HostAlias \<Rightarrow> (string + HostAlias) \<times> 'b"
  UpdateHostAlias :: "'b \<Rightarrow> HostAlias \<Rightarrow> string option \<times> 'b"
  DeleteHostAlias :: "'b \<Rightarrow> HostAlias \<Rightarrow> string option \<times> 'b"

text \<open>The calls the provider issues, recorded in the order it issues them.\<close>

datatype call =
  ListHostOverridesC
  | CreateHostOverrideC HostOverride
  | DeleteHostOverrideC HostOverride
  | UpdateHostOverrideC HostOverride
  | ListHostAliasesC string
  | CreateHostAliasC HostAlias
  | UpdateHostAliasC HostAlias
  | DeleteHostAliasC HostAlias

datatype level = Debug | Info | Warn | Error

text \<open>
  What the provider acts on: the backend, the calls issued so far and the \<open>slog\<close> records
  written so far (level and message).
\<close>

record 'b world =
  backend :: 'b
  calls :: "call list"
  logs :: "(level \<times> string) list"

text \<open>
  Inside \<open>ApplyChanges\<close> the two lookup tables \<open>aRecordsByDNSName\<close> and
  \<open>cnameRecordsByDNSName\<close> (Go maps keyed by full name) are local variables.
\<close>

record 'b locals = "'b world" +
  aRecordsByDNSName :: "string \<rightharpoonup> HostOverride"
  cnameRecordsByDNSName :: "string \<rightharpoonup> HostAlias"

definition called :: "call \<Rightarrow> 'b \<Rightarrow> ('b, 'm) world_scheme \<Rightarrow> ('b, 'm) world_scheme" where
  "called c b' w = w\<lparr>backend := b', calls := calls w @ [c]\<rparr>"

definition slog :: "level \<Rightarrow> string \<Rightarrow> ('b, 'm) world_scheme \<Rightarrow> ('b, 'm) world_scheme" where
  "slog l msg w = w\<lparr>logs := logs w @ [(l, msg)]\<rparr>"

section \<open>provider: AdjustEndpoints\<close>

text \<open>
  The provider is \<open>src/unnamed/part_002\<close> (package \<open>provider\<close>); the line numbers below
  are its lines.

  The loop rewrites each endpoint through its pointer; the model returns the rewritten list.
  \<open>e.Targets[0]\<close> panics on an empty target list. The error result is \<open>nil\<close> on every
  return.
\<close>

fun AdjustEndpoints :: "Endpoint list \<Rightarrow> Endpoint list result" where
  "AdjustEndpoints [] = Ok []"
| "AdjustEndpoints (e # es) =
     (if RecordType e = RecordTypeA then
        (case Targets e of
           [] \<Rightarrow> Panic
         | t # _ \<Rightarrow>
             (case AdjustEndpoints es of
                Ok es' \<Rightarrow> Ok (e\<lparr>Targets := NewTargets t\<rparr> # es')
              | r \<Rightarrow> r))
      else
        (case AdjustEndpoints es of
           Ok es' \<Rightarrow> Ok (e # es')
         | r \<Rightarrow> r))"

section \<open>provider: Records\<close>

text \<open>The inner loop over \<open>cnameRes\<close> appends \<open>cr.Endpoint()\<close> for each alias.\<close>

fun Records_loop ::
  "'b API \<Rightarrow> HostOverride list \<Rightarrow> Endpoint list \<Rightarrow> 'b world \<Rightarrow> Endpoint list result \<times> 'b world"
where
  "Records_loop api [] acc w = (Ok acc, slog Info ''list records'' w)"
| "Records_loop api (r # rs) acc w =
     (case ListHostAliases api (backend w) (ho_ID r) of
        (Inl err, b') \<Rightarrow>
          (Err err, slog Error ''failed to list CNAME records'' (called (ListHostAliasesC (ho_ID r)) b' w))
      | (Inr cnameRes, b') \<Rightarrow>
          Records_loop api rs (acc @ [ho_Endpoint r] @ map ha_Endpoint cnameRes)
            (called (ListHostAliasesC (ho_ID r)) b' w))"

definition Records :: "'b API \<Rightarrow> 'b world \<Rightarrow> Endpoint list result \<times> 'b world" where
  "Records api w =
     (case ListHostOverrides api (backend w) of
        (Inl err, b') \<Rightarrow>
          (Err err, slog Error ''failed to list A records'' (called ListHostOverridesC b' w))
      | (Inr res, b') \<Rightarrow> Records_loop api res [] (called ListHostOverridesC b' w))"

section \<open>provider: ApplyChanges\<close>

text \<open>
  A \<open>for _, ep := range\<close> loop whose body either goes on to the next entry or returns from
  the whole function (with an error, or by a panic).
\<close>

fun for_each :: "('a \<Rightarrow> 's \<Rightarrow> unit result \<times> 's) \<Rightarrow> 'a list \<Rightarrow> 's \<Rightarrow> unit result \<times> 's" where
  "for_each body [] st = (Ok (), st)"
| "for_each body (x # xs) st =
     (case body x st of
        (Ok u, st') \<Rightarrow> for_each body xs st'
      | (Err e, st') \<Rightarrow> (Err e, st')
      | (Panic, st') \<Rightarrow> (Panic, st'))"

text \<open>Lines 95-98: the address table, a later record replacing an earlier one of the same name.\<close>

definition index_overrides :: "HostOverride list \<Rightarrow> (string \<rightharpoonup> HostOverride)" where
  "index_overrides hos = foldl (\<lambda>m ho. m(ho_DNSName ho \<mapsto> ho)) Map.empty hos"

text \<open>Lines 107-109: the aliases of one address record entered into the alias table.\<close>

definition index_aliases :: "(string \<rightharpoonup> HostAlias) \<Rightarrow> HostAlias list \<Rightarrow> (string \<rightharpoonup> HostAlias)" where
  "index_aliases m has = foldl (\<lambda>m ha. m(ha_DNSName ha \<mapsto> ha)) m has"

text \<open>Lines 101-110, the body of the loop over \<open>hostOverrides\<close>.\<close>

definition list_aliases_step :: "'b API \<Rightarrow> HostOverride \<Rightarrow> 'b locals \<Rightarrow> unit result \<times> 'b locals" where
  "list_aliases_step api ho st =
     (case ListHostAliases api (backend st) (ho_ID ho) of
        (Inl err, b') \<Rightarrow>
          (Err err,
           slog Error ''failed to list CNAME records'' (called (ListHostAliasesC (ho_ID ho)) b' st))
      | (Inr res, b') \<Rightarrow>
          (Ok (),
           (called (ListHostAliasesC (ho_ID ho)) b' st)
             \<lparr>cnameRecordsByDNSName := index_aliases (cnameRecordsByDNSName st) res\<rparr>))"

text \<open>Lines 112-145, the body of the loop over \<open>changes.Delete\<close>.\<close>

definition delete_step :: "'b API \<Rightarrow> Endpoint \<Rightarrow> 'b locals \<Rightarrow> unit result \<times> 'b locals" where
  "delete_step api ep st =
     (if RecordType ep = RecordTypeA then
        (case aRecordsByDNSName st (DNSName ep) of
           Some ho \<Rightarrow>
             (case DeleteHostOverride api (backend st) ho of
                (Some err, b') \<Rightarrow>
                  (Err (''failed to delete host override: '' @ err),
                   slog Error ''failed to delete host override''
                     (called (DeleteHostOverrideC ho) b' st))
              | (None, b') \<Rightarrow>
                  (Ok (),
                   (slog Info ''deleted Host Override'' (called (DeleteHostOverrideC ho) b' st))
                     \<lparr>aRecordsByDNSName := (aRecordsByDNSName st)(DNSName ep := None)\<rparr>))
         | None \<Rightarrow> (Ok (), slog Warn ''Host Override not found'' st))
      else if RecordType ep = RecordTypeCNAME then
        (case cnameRecordsByDNSName st (DNSName ep) of
           Some ha \<Rightarrow>
             (case DeleteHostAlias api (backend st) ha of
                (Some err, b') \<Rightarrow>
                  (Err (''failed to delete host alias: '' @ err),
                   slog Error ''failed to delete host alias''
                     (called (DeleteHostAliasC ha) b' st))
              | (None, b') \<Rightarrow>
                  (Ok (),
                   (slog Info ''deleted Host Alias'' (called (DeleteHostAliasC ha) b' st))
                     \<lparr>cnameRecordsByDNSName := (cnameRecordsByDNSName st)(DNSName ep := None)\<rparr>))
         | None \<Rightarrow> (Ok (), slog Warn ''Host Alias not found'' st))
      else (Ok (), slog Warn ''unsupported record type'' st))"

text \<open>
  Lines 147-181, the body of the loop over \<open>changes.Create\<close>. \<open>ho.Update(ep)\<close> and
  \<open>ep.Targets[0]\<close> can panic.
\<close>

definition create_step :: "'b API \<Rightarrow> Endpoint \<Rightarrow> 'b locals \<Rightarrow> unit result \<times> 'b locals" where
  "create_step api ep st =
     (if RecordType ep = RecordTypeA then
        (case ho_Update HostOverride_zero ep of
           None \<Rightarrow> (Panic, st)
         | Some ho \<Rightarrow>
             (case CreateHostOverride api (backend st) ho of
                (Inl err, b') \<Rightarrow>
                  (Err (''failed to create host override: '' @ err),
                   slog Error ''failed to create host override''
                     (called (CreateHostOverrideC ho) b' st))
              | (Inr ho', b') \<Rightarrow>
                  (Ok (),
                   (slog Info ''created Host Override'' (called (CreateHostOverrideC ho) b' st))
                     \<lparr>aRecordsByDNSName := (aRecordsByDNSName st)(ho_DNSName ho' \<mapsto> ho')\<rparr>)))
      else if RecordType ep = RecordTypeCNAME then
        (case Targets ep of
           [] \<Rightarrow> (Panic, st)
         | t # _ \<Rightarrow>
             (case aRecordsByDNSName st t of
                Some ho \<Rightarrow>
                  (case ha_Update (HostAlias_for (ho_ID ho)) ep of
                     None \<Rightarrow> (Panic, st)
                   | Some ha \<Rightarrow>
                       (case CreateHostAlias api (backend st) ha of
                          (Inl err, b') \<Rightarrow>
                            (Err (''failed to create host alias: '' @ err),
                             slog Error ''failed to create host alias''
                               (called (CreateHostAliasC ha) b' st))
                        | (Inr ha', b') \<Rightarrow>
                            (Ok (),
                             (slog Info ''created Host Alias'' (called (CreateHostAliasC ha) b' st))
                               \<lparr>cnameRecordsByDNSName :=
                                  (cnameRecordsByDNSName st)(ha_DNSName ha' \<mapsto> ha')\<rparr>)))
              | None \<Rightarrow>
                  (Err ''failed to create host alias: target host override not found'',
                   slog Warn ''Target Host Override not found for Host Alias'' st)))
      else (Ok (), slog Warn ''unsupported record type'' st))"

text \<open>
  Lines 189-226, the body of the loop over \<open>changes.UpdateOld\<close>, once \<open>newEP\<close> is read.
  The table lookup copies the record (Go maps hold struct values), \<open>Update\<close> changes the copy,
  and the copy is stored under its new full name; the entry under the old name is left as it is.
\<close>

definition update_step ::
  "'b API \<Rightarrow> Endpoint \<Rightarrow> Endpoint \<Rightarrow> 'b locals \<Rightarrow> unit result \<times> 'b locals"
where
  "update_step api oldEP newEP st =
     (if RecordType oldEP = RecordTypeA then
        (case aRecordsByDNSName st (DNSName oldEP) of
           Some ho0 \<Rightarrow>
             (case ho_Update ho0 newEP of
                None \<Rightarrow> (Panic, st)
              | Some ho \<Rightarrow>
                  (case UpdateHostOverride api (backend st) ho of
                     (Some err, b') \<Rightarrow>
                       (Err (''failed to update host override: '' @ err),
                        slog Error ''failed to update host override''
                          (called (UpdateHostOverrideC ho) b' st))
                   | (None, b') \<Rightarrow>
                       (Ok (),
                        (slog Info ''updated Host Override'' (called (UpdateHostOverrideC ho) b' st))
                          \<lparr>aRecordsByDNSName := (aRecordsByDNSName st)(ho_DNSName ho \<mapsto> ho)\<rparr>)))
         | None \<Rightarrow> (Ok (), slog Warn ''Host Override not found'' st))
      else if RecordType oldEP = RecordTypeCNAME then
        (case cnameRecordsByDNSName st (DNSName oldEP) of
           Some haOld \<Rightarrow>
             (case Targets newEP of
                [] \<Rightarrow> (Panic, st)
              | t # _ \<Rightarrow>
                  (case aRecordsByDNSName st t of
                     Some ho \<Rightarrow>
                       (case ha_Update haOld newEP of
                          None \<Rightarrow> (Panic, st)
                        | Some ha1 \<Rightarrow>
                            (let ha = ha1\<lparr>ha_HostID := ho_ID ho\<rparr> in
                             case UpdateHostAlias api (backend st) ha of
                               (Some err, b') \<Rightarrow>
                                 (Err (''failed to update host alias: '' @ err),
                                  slog Error ''failed to update host alias''
                                    (called (UpdateHostAliasC ha) b' st))
                             | (None, b') \<Rightarrow>
                                 (Ok (),
                                  (slog Info ''updated Host Alias''
                                     (called (UpdateHostAliasC ha) b' st))
                                    \<lparr>cnameRecordsByDNSName :=
                                       (cnameRecordsByDNSName st)(ha_DNSName ha \<mapsto> ha)\<rparr>)))
                   | None \<Rightarrow>
                       (Err ''failed to update host alias: target host override not found'',
                        slog Warn ''Target Host Override not found for Host Alias'' st)))
         | None \<Rightarrow> (Err ''host alias not found'', slog Warn ''Host Alias not found'' st))
      else (Ok (), slog Warn ''unsupported record type'' st))"

text \<open>
  Lines 184-227: \<open>for i, oldEP := range changes.UpdateOld\<close> with
  \<open>newEP := changes.UpdateNew[i]\<close>, which panics once \<open>UpdateNew\<close> is exhausted.
  Walking both lists together reads \<open>UpdateNew\<close> at the index of the old endpoint.
\<close>

fun update_loop ::
  "'b API \<Rightarrow> Endpoint list \<Rightarrow> Endpoint list \<Rightarrow> 'b locals \<Rightarrow> unit result \<times> 'b locals"
where
  "update_loop api [] news st = (Ok (), st)"
| "update_loop api (oldEP # olds) [] st = (Panic, st)"
| "update_loop api (oldEP # olds) (newEP # news) st =
     (case update_step api oldEP newEP st of
        (Ok u, st') \<Rightarrow> update_loop api olds news st'
      | (Err e, st') \<Rightarrow> (Err e, st')
      | (Panic, st') \<Rightarrow> (Panic, st'))"

text \<open>Entering the function body creates the two tables; returning drops them.\<close>

definition enter :: "'b world \<Rightarrow> (string \<rightharpoonup> HostOverride) \<Rightarrow> 'b locals" where
  "enter w am =
     \<lparr>backend = backend w, calls = calls w, logs = logs w,
      aRecordsByDNSName = am, cnameRecordsByDNSName = Map.empty\<rparr>"

definition leave :: "'b locals \<Rightarrow> 'b world" where
  "leave st = \<lparr>backend = backend st, calls = calls st, logs = logs st\<rparr>"

text \<open>Lines 89-110: the two tables built from the backend's current records.\<close>

definition build_tables :: "'b API \<Rightarrow> 'b world \<Rightarrow> unit result \<times> 'b locals" where
  "build_tables api w =
     (case ListHostOverrides api (backend w) of
        (Inl err, b') \<Rightarrow>
          (Err (''failed to list A records: '' @ err),
           enter (slog Error ''failed to list A records'' (called ListHostOverridesC b' w)) Map.empty)
      | (Inr hostOverrides, b') \<Rightarrow>
          for_each (list_aliases_step api) hostOverrides
            (enter (called ListHostOverridesC b' w) (index_overrides hostOverrides)))"

text \<open>Lines 112-229: the three loops, in the order of the source.\<close>

definition apply_phases :: "'b API \<Rightarrow> Changes \<Rightarrow> 'b locals \<Rightarrow> unit result \<times> 'b locals" where
  "apply_phases api changes st =
     (case for_each (delete_step api) (Delete changes) st of
        (Ok u, st1) \<Rightarrow>
          (case for_each (create_step api) (Create changes) st1 of
             (Ok u, st2) \<Rightarrow> update_loop api (UpdateOld changes) (UpdateNew changes) st2
           | (Err e, st2) \<Rightarrow> (Err e, st2)
           | (Panic, st2) \<Rightarrow> (Panic, st2))
      | (Err e, st1) \<Rightarrow> (Err e, st1)
      | (Panic, st1) \<Rightarrow> (Panic, st1))"

definition ApplyChanges ::
  "(Changes \<Rightarrow> bool) \<Rightarrow> 'b API \<Rightarrow> Changes \<Rightarrow> 'b world \<Rightarrow> unit result \<times> 'b world"
where
  "ApplyChanges hasChanges api changes w =
     (if \<not> hasChanges changes then (Ok (), slog Debug ''No changes'' w)
      else
        (case build_tables api w of
           (Ok u, st) \<Rightarrow> (case apply_phases api changes st of (r, st') \<Rightarrow> (r, leave st'))
         | (Err e, st) \<Rightarrow> (Err e, leave st)
         | (Panic, st) \<Rightarrow> (Panic, leave st)))"

section \<open>provider_test.go: the fake backend\<close>

text \<open>
  \<open>type fakeAPI struct\<close> of the tests, an in-memory implementation of the interface.
  \<open>rand.Int()\<close> is a draw from the global generator: the model carries the next draw in
  the state and counts upwards.
\<close>

record fakeAPI =
  hostOverrides :: "HostOverride list"
  hostAliases :: "HostAlias list"
  next_rand :: nat

text \<open>\<open>strconv.Itoa\<close> on a non-negative number.\<close>

fun Itoa :: "nat \<Rightarrow> string" where
  "Itoa n =
     (if n < 10 then [''0123456789'' ! n]
      else Itoa (n div 10) @ [''0123456789'' ! (n mod 10)])"

declare Itoa.simps [simp del]

definition fake :: "fakeAPI API" where
  "fake =
     \<lparr>ListHostOverrides = (\<lambda>f. (Inr (hostOverrides f), f)),
      CreateHostOverride = (\<lambda>f ho.
        (let ho' = ho\<lparr>ho_ID := Itoa (next_rand f)\<rparr>
         in (Inr ho', f\<lparr>hostOverrides := hostOverrides f @ [ho'], next_rand := Suc (next_rand f)\<rparr>))),
      DeleteHostOverride = (\<lambda>f ho.
        (None, f\<lparr>hostOverrides := filter (\<lambda>e. e \<noteq> ho) (hostOverrides f)\<rparr>)),
      UpdateHostOverride = (\<lambda>f ho.
        (None, f\<lparr>hostOverrides := map (\<lambda>h. if ho_ID ho = ho_ID h then ho else h) (hostOverrides f)\<rparr>)),
      ListHostAliases = (\<lambda>f hid. (Inr (hostAliases f), f)),
      CreateHostAlias = (\<lambda>f ha.
        (let ha' = ha\<lparr>ha_ID := Itoa (next_rand f)\<rparr>
         in (Inr ha', f\<lparr>hostAliases := hostAliases f @ [ha'], next_rand := Suc (next_rand f)\<rparr>))),
      UpdateHostAlias = (\<lambda>f ha.
        (None, f\<lparr>hostAliases := map (\<lambda>h. if ha_ID ha = ha_ID h then ha else h) (hostAliases f)\<rparr>)),
      DeleteHostAlias = (\<lambda>f ha.
        (None, f\<lparr>hostAliases := filter (\<lambda>e. e \<noteq> ha) (hostAliases f)\<rparr>))\<rparr>"

text \<open>A provider about to run against a backend: nothing called, nothing logged.\<close>

definition start :: "'b \<Rightarrow> 'b world" where
  "start b = \<lparr>backend = b, calls = [], logs = []\<rparr>"

section \<open>The batch as the spec words it\<close>

text \<open>
  The spec, section 4.3: "Processing order: Delete entries first, then Create entries, then
  Update pairs (old/new). Within each phase, entries are processed in the order given" and
  "the first error encountered in any phase aborts the remaining batch immediately".
  \<open>batch_entries\<close> is that order as one list; \<open>process_entry\<close> handles one entry by the
  loop body of the source, and \<open>for_each\<close> stops at the first entry that does not go on.
\<close>

datatype entry = DeleteE Endpoint | CreateE Endpoint | UpdateE Endpoint Endpoint

definition batch_entries :: "Changes \<Rightarrow> entry list" where
  "batch_entries c =
     map DeleteE (Delete c) @ map CreateE (Create c) @
     map (\<lambda>(oldEP, newEP). UpdateE oldEP newEP) (zip (UpdateOld c) (UpdateNew c))"

fun process_entry :: "'b API \<Rightarrow> entry \<Rightarrow> 'b locals \<Rightarrow> unit result \<times> 'b locals" where
  "process_entry api (DeleteE e) st = delete_step api e st"
| "process_entry api (CreateE e) st = create_step api e st"
| "process_entry api (UpdateE oldEP newEP) st = update_step api oldEP newEP st"

text \<open>Processing goes on with the entries that follow, and the function returns.\<close>

definition go_on :: "'b API \<Rightarrow> entry list \<Rightarrow> 'b locals \<Rightarrow> unit result \<times> 'b world" where
  "go_on api post st =
     (case for_each (process_entry api) post st of (r, st') \<Rightarrow> (r, leave st'))"

text \<open>
  What the code takes for granted of an endpoint it builds a record from: a dot in the name
  (so that \<open>parts[1]\<close> exists) and a first target.
\<close>

definition usable :: "Endpoint \<Rightarrow> bool" where
  "usable x \<longleftrightarrow> CHR ''.'' \<in> set (DNSName x) \<and> Targets x \<noteq> []"






section \<open>provider_test.go: the records and endpoints of the tests\<close>

definition ho_berkin :: HostOverride where
  "ho_berkin =
     \<lparr>ho_ID = ''berkin'', ho_Hostname = ''berkin'', ho_Domain = ''example.com'',
      ho_Server = ''127.0.0.1''\<rparr>"

definition ha_derkin :: HostAlias where
  "ha_derkin =
     \<lparr>ha_ID = ''derkin'', ha_Enabled = [], ha_Host = ''berkin.example.com'',
      ha_HostID = ''berkin'', ha_Hostname = ''derkin'', ha_Domain = ''example.com'',
      ha_Description = []\<rparr>"

definition ho_a :: HostOverride where
  "ho_a =
     \<lparr>ho_ID = ''a'', ho_Hostname = ''a'', ho_Domain = ''example.com'', ho_Server = ''127.0.0.1''\<rparr>"

definition ha_cname :: HostAlias where
  "ha_cname =
     \<lparr>ha_ID = ''cname'', ha_Enabled = [], ha_Host = ''a.example.com'', ha_HostID = ''a'',
      ha_Hostname = ''cname'', ha_Domain = ''example.com'', ha_Description = []\<rparr>"

definition fake_empty :: fakeAPI where
  "fake_empty = \<lparr>hostOverrides = [], hostAliases = [], next_rand = 7\<rparr>"

definition fake_berkin :: fakeAPI where
  "fake_berkin = \<lparr>hostOverrides = [ho_berkin], hostAliases = [ha_derkin], next_rand = 7\<rparr>"

definition fake_a :: fakeAPI where
  "fake_a = \<lparr>hostOverrides = [ho_a], hostAliases = [ha_cname], next_rand = 7\<rparr>"

definition ep :: "string \<Rightarrow> string \<Rightarrow> string list \<Rightarrow> Endpoint" where
  "ep name kind targets = \<lparr>DNSName = name, Targets = targets, RecordType = kind\<rparr>"

definition no_changes :: Changes where
  "no_changes = \<lparr>Create = [], Delete = [], UpdateOld = [], UpdateNew = []\<rparr>"

text \<open>The tables \<open>ApplyChanges\<close> builds on the backend \<open>fake_a\<close>.\<close>

definition tables_a :: "fakeAPI locals" where
  "tables_a = snd (build_tables fake (start fake_a))"

text \<open>A batch with entries in every list, one of them a dangling alias.\<close>

definition mixed_batch :: Changes where
  "mixed_batch =
     \<lparr>Create =
        [ep ''b.example.com'' ''A'' [''10.0.0.1''],
         ep ''bad.example.com'' ''CNAME'' [''nope.example.com''],
         ep ''never.example.com'' ''A'' [''10.0.0.2'']],
      Delete = [ep ''cname.example.com'' ''CNAME'' [''a.example.com'']],
      UpdateOld = [ep ''a.example.com'' ''A'' [''127.0.0.1'']],
      UpdateNew = [ep ''a.example.com'' ''A'' [''127.0.0.2'']]\<rparr>"

text \<open>
  A batch of entries that name no record of \<open>fake_a\<close> or are of a kind the provider does
  not support; and \<open>tables_a\<close> after some warnings.
\<close>

definition miss_batch :: Changes where
  "miss_batch =
     \<lparr>Create = [ep ''t.example.com'' ''TXT'' [''hello'']],
      Delete =
        [ep ''x.example.com'' ''A'' [''127.0.0.1''],
         ep ''y.example.com'' ''CNAME'' [''a.example.com''],
         ep ''t.example.com'' ''TXT'' [''hello'']],
      UpdateOld =
        [ep ''z.example.com'' ''A'' [''127.0.0.1''],
         ep ''t.example.com'' ''TXT'' [''hello''],
         ep ''q.example.com'' ''CNAME'' [''a.example.com'']],
      UpdateNew =
        [ep ''z.example.com'' ''A'' [''127.0.0.2''],
         ep ''t.example.com'' ''TXT'' [''bye''],
         ep ''q.example.com'' ''CNAME'' [''a.example.com'']]\<rparr>"

definition warned :: "string list \<Rightarrow> fakeAPI locals" where
  "warned msgs = tables_a\<lparr>logs := map (Pair Warn) msgs\<rparr>"




text \<open>Batches with an endpoint the code cannot index.\<close>

definition alias_without_target :: Changes where
  "alias_without_target =
     \<lparr>Create = [ep ''www.example.com'' ''CNAME'' []], Delete = [], UpdateOld = [],
      UpdateNew = []\<rparr>"

definition name_without_dot :: Changes where
  "name_without_dot =
     \<lparr>Create = [ep ''localhost'' ''A'' [''127.0.0.1'']], Delete = [], UpdateOld = [],
      UpdateNew = []\<rparr>"

definition update_without_target :: Changes where
  "update_without_target =
     \<lparr>Create = [], Delete = [],
      UpdateOld = [ep ''a.example.com'' ''A'' [''127.0.0.1'']],
      UpdateNew = [ep ''a.example.com'' ''A'' []]\<rparr>"

section \<open>AdjustEndpoints\<close>

lemma AdjustEndpoints_no_error: "AdjustEndpoints es \<noteq> Err m"
  by (induction es) (auto split: list.splits result.splits)

lemma AdjustEndpoints_Panic_iff:
  "AdjustEndpoints es = Panic \<longleftrightarrow> (\<exists>e\<in>set es. RecordType e = RecordTypeA \<and> Targets e = [])"
  by (induction es) (auto simp: AdjustEndpoints_no_error split: list.splits result.splits)

lemma AdjustEndpoints_Ok_Cons:
  "AdjustEndpoints (e # es) = Ok r \<longleftrightarrow>
     (\<exists>es'. AdjustEndpoints es = Ok es' \<and>
        (if RecordType e = RecordTypeA
         then \<exists>t ts. Targets e = t # ts \<and> r = e\<lparr>Targets := [t]\<rparr> # es'
         else r = e # es'))"
  by (auto simp: NewTargets_def split: list.splits result.splits)

lemma AdjustEndpoints_pointwise:
  "AdjustEndpoints es = Ok es' \<Longrightarrow>
     length es' = length es \<and>
     (\<forall>i<length es.
        if RecordType (es ! i) = RecordTypeA
        then \<exists>t ts. Targets (es ! i) = t # ts \<and> es' ! i = (es ! i)\<lparr>Targets := [t]\<rparr>
        else es' ! i = es ! i)"
proof (induction es arbitrary: es')
  case Nil
  then show ?case by simp
next
  case (Cons e es)
  from Cons.prems obtain r where r: "AdjustEndpoints es = Ok r"
    and es': "if RecordType e = RecordTypeA
         then \<exists>t ts. Targets e = t # ts \<and> es' = e\<lparr>Targets := [t]\<rparr> # r
         else es' = e # r"
    unfolding AdjustEndpoints_Ok_Cons by blast
  from Cons.IH [OF r] have len: "length r = length es"
    and pt: "\<And>i. i < length es \<Longrightarrow>
        (if RecordType (es ! i) = RecordTypeA
        then \<exists>t ts. Targets (es ! i) = t # ts \<and> r ! i = (es ! i)\<lparr>Targets := [t]\<rparr>
        else r ! i = es ! i)"
    by blast+
  have "length es' = length (e # es)"
    using es' len by (auto split: if_splits)
  moreover have "if RecordType ((e # es) ! i) = RecordTypeA
        then \<exists>t ts. Targets ((e # es) ! i) = t # ts \<and> es' ! i = ((e # es) ! i)\<lparr>Targets := [t]\<rparr>
        else es' ! i = (e # es) ! i" if "i < length (e # es)" for i
  proof (cases i)
    case 0
    then show ?thesis using es' by (auto split: if_splits)
  next
    case (Suc j)
    with that have "j < length es" by simp
    from pt [OF this] show ?thesis using es' Suc by (auto split: if_splits)
  qed
  ultimately show ?case by blast
qed

lemma AdjustEndpoints_fixed: "AdjustEndpoints es = Ok es' \<Longrightarrow> AdjustEndpoints es' = Ok es'"
proof (induction es arbitrary: es')
  case Nil
  then show ?case by simp
next
  case (Cons e es)
  from Cons.prems obtain r where r: "AdjustEndpoints es = Ok r"
    and es': "if RecordType e = RecordTypeA
         then \<exists>t ts. Targets e = t # ts \<and> es' = e\<lparr>Targets := [t]\<rparr> # r
         else es' = e # r"
    unfolding AdjustEndpoints_Ok_Cons by blast
  from Cons.IH [OF r] es' show ?case
    by (auto simp: NewTargets_def split: if_splits)
qed

text \<open>
  C4, as stated, fails: an Address-kind endpoint with an empty target list makes
  \<open>e.Targets[0]\<close> panic, so \<open>AdjustEndpoints\<close> does not return on it.
\<close>

theorem AdjustEndpoints_empty_targets_panics:
  "AdjustEndpoints [\<lparr>DNSName = ''a.example.com'', Targets = [], RecordType = ''A''\<rparr>] = Panic"
  by (simp add: RecordTypeA_def)

text \<open>
  C4, amended: \<open>AdjustEndpoints\<close> never returns an error, and it returns a result exactly
  when every Address-kind endpoint of the input has at least one target; endpoints of other
  kinds may have any target list, the empty one included.
\<close>

theorem AdjustEndpoints_returns_iff:
  "(\<forall>m. AdjustEndpoints es \<noteq> Err m) \<and>
   ((\<exists>es'. AdjustEndpoints es = Ok es') \<longleftrightarrow>
      (\<forall>e\<in>set es. RecordType e = RecordTypeA \<longrightarrow> Targets e \<noteq> []))"
  using AdjustEndpoints_Panic_iff [of es] AdjustEndpoints_no_error [of es]
  by (cases "AdjustEndpoints es") auto

theorem AdjustEndpoints_returns_iff_witness:
  "AdjustEndpoints [ep ''a.example.com'' ''A'' [''127.0.0.1''], ep ''txt.example.com'' ''TXT'' []]
     = Ok [ep ''a.example.com'' ''A'' [''127.0.0.1''], ep ''txt.example.com'' ''TXT'' []] \<and>
   (\<exists>es'. AdjustEndpoints
      [ep ''a.example.com'' ''A'' [''127.0.0.1''], ep ''txt.example.com'' ''TXT'' []] = Ok es')"
  using AdjustEndpoints_returns_iff
    [of "[ep ''a.example.com'' ''A'' [''127.0.0.1''], ep ''txt.example.com'' ''TXT'' []]"]
  by (simp add: ep_def RecordTypeA_def NewTargets_def)

text \<open>
  C8: \<open>AdjustEndpoints\<close> is idempotent (running it on its own result changes nothing, and a
  run that panics panics); a result has the length and order of the input, each Address-kind
  endpoint keeps exactly its first target, and every other endpoint is unchanged.
\<close>

theorem AdjustEndpoints_idempotent:
  "(case AdjustEndpoints es of Ok es' \<Rightarrow> AdjustEndpoints es' | Err m \<Rightarrow> Err m | Panic \<Rightarrow> Panic)
     = AdjustEndpoints es \<and>
   (AdjustEndpoints es = Ok es' \<longrightarrow>
      length es' = length es \<and>
      (\<forall>i<length es.
        if RecordType (es ! i) = RecordTypeA
        then \<exists>t ts. Targets (es ! i) = t # ts \<and> es' ! i = (es ! i)\<lparr>Targets := [t]\<rparr>
        else es' ! i = es ! i))"
proof (intro conjI impI)
  show "(case AdjustEndpoints es of Ok es' \<Rightarrow> AdjustEndpoints es' | Err m \<Rightarrow> Err m | Panic \<Rightarrow> Panic)
     = AdjustEndpoints es"
    by (cases "AdjustEndpoints es") (simp_all add: AdjustEndpoints_fixed)
next
  assume ok: "AdjustEndpoints es = Ok es'"
  from AdjustEndpoints_pointwise [OF ok] show "length es' = length es" by blast
  from AdjustEndpoints_pointwise [OF ok] show "\<forall>i<length es.
        if RecordType (es ! i) = RecordTypeA
        then \<exists>t ts. Targets (es ! i) = t # ts \<and> es' ! i = (es ! i)\<lparr>Targets := [t]\<rparr>
        else es' ! i = es ! i" by blast
qed

theorem AdjustEndpoints_idempotent_witness:
  "AdjustEndpoints
     [ep ''a.example.com'' ''A'' [''127.0.0.1'', ''127.0.0.2''],
      ep ''cname.example.com'' ''CNAME'' [''a.example.com'']]
   = Ok [ep ''a.example.com'' ''A'' [''127.0.0.1''],
         ep ''cname.example.com'' ''CNAME'' [''a.example.com'']] \<and>
   AdjustEndpoints
     [ep ''a.example.com'' ''A'' [''127.0.0.1''],
      ep ''cname.example.com'' ''CNAME'' [''a.example.com'']]
   = Ok [ep ''a.example.com'' ''A'' [''127.0.0.1''],
         ep ''cname.example.com'' ''CNAME'' [''a.example.com'']]"
  using AdjustEndpoints_idempotent
    [of "[ep ''a.example.com'' ''A'' [''127.0.0.1'', ''127.0.0.2''],
          ep ''cname.example.com'' ''CNAME'' [''a.example.com'']]"
        "[ep ''a.example.com'' ''A'' [''127.0.0.1''],
          ep ''cname.example.com'' ''CNAME'' [''a.example.com'']]"]
  by (simp add: ep_def RecordTypeA_def NewTargets_def)

section \<open>ApplyChanges: the empty batch\<close>

text \<open>
  C9: when \<open>HasChanges\<close> reports no changes, \<open>ApplyChanges\<close> returns success, issues no
  call and leaves the backend as it was (it writes the debug record "No changes"); a batch
  whose four lists are all empty is such a batch.
\<close>

theorem ApplyChanges_empty_batch:
  "(\<not> hc c \<longrightarrow>
      ApplyChanges hc api c w = (Ok (), slog Debug ''No changes'' w) \<and>
      calls (snd (ApplyChanges hc api c w)) = calls w \<and>
      backend (snd (ApplyChanges hc api c w)) = backend w) \<and>
   (Create c = [] \<and> Delete c = [] \<and> UpdateOld c = [] \<and> UpdateNew c = [] \<longrightarrow>
      \<not> HasChanges c \<and>
      ApplyChanges HasChanges api c w = (Ok (), slog Debug ''No changes'' w) \<and>
      calls (snd (ApplyChanges HasChanges api c w)) = calls w \<and>
      backend (snd (ApplyChanges HasChanges api c w)) = backend w)"
  by (simp add: ApplyChanges_def HasChanges_def slog_def)

theorem ApplyChanges_empty_batch_witness:
  "Create no_changes = [] \<and> Delete no_changes = [] \<and> UpdateOld no_changes = [] \<and>
   UpdateNew no_changes = [] \<and> \<not> HasChanges no_changes \<and>
   fst (ApplyChanges HasChanges fake no_changes (start fake_berkin)) = Ok () \<and>
   calls (snd (ApplyChanges HasChanges fake no_changes (start fake_berkin))) = [] \<and>
   backend (snd (ApplyChanges HasChanges fake no_changes (start fake_berkin))) = fake_berkin"
proof -
  have e: "Create no_changes = [] \<and> Delete no_changes = [] \<and> UpdateOld no_changes = [] \<and>
    UpdateNew no_changes = []"
    by (simp add: no_changes_def)
  note A = ApplyChanges_empty_batch [where c = no_changes and api = fake
      and w = "start fake_berkin" and hc = HasChanges, THEN conjunct2, THEN mp, OF e]
  have s: "slog Debug ''No changes'' (start fake_berkin) =
      \<lparr>backend = fake_berkin, calls = [], logs = [(Debug, ''No changes'')]\<rparr>"
    by (simp add: slog_def start_def)
  show ?thesis
    using e A unfolding s by simp
qed

section \<open>Helper facts\<close>

text \<open>The definitions a concrete run unfolds.\<close>

lemmas eval_defs = ApplyChanges_def HasChanges_def build_tables_def apply_phases_def fake_def start_def ep_def
    called_def slog_def enter_def leave_def index_overrides_def index_aliases_def list_aliases_step_def
    create_step_def delete_step_def update_step_def ho_Update_def ha_Update_def SplitN_dot_2_def
    ho_DNSName_def ha_DNSName_def dotted_def RecordTypeA_def RecordTypeCNAME_def
    HostOverride_zero_def HostAlias_for_def Let_def Itoa.simps

lemma kinds_differ: "RecordTypeA \<noteq> RecordTypeCNAME"
  by (simp add: RecordTypeA_def RecordTypeCNAME_def)

lemma cut_dot_Some: "cut_dot s = Some (h, d) \<Longrightarrow> dotted h d = s \<and> CHR ''.'' \<notin> set h"
  by (induction s arbitrary: h) (auto simp: dotted_def split: if_splits option.splits)

lemma cut_dot_None: "cut_dot s = None \<longleftrightarrow> CHR ''.'' \<notin> set s"
  by (induction s) (auto split: option.splits)

lemma ho_Update_None: "ho_Update r e = None \<longleftrightarrow> cut_dot (DNSName e) = None \<or> Targets e = []"
  by (auto simp: ho_Update_def SplitN_dot_2_def Let_def split: option.splits list.splits)

lemma ha_Update_None: "ha_Update r e = None \<longleftrightarrow> cut_dot (DNSName e) = None \<or> Targets e = []"
  by (auto simp: ha_Update_def SplitN_dot_2_def Let_def split: option.splits list.splits)

lemma ho_Update_Some:
  "cut_dot (DNSName e) = Some (h, d) \<Longrightarrow> Targets e = t # ts \<Longrightarrow>
   ho_Update r e = Some (r\<lparr>ho_Hostname := h, ho_Domain := d, ho_Server := t\<rparr>)"
  by (simp add: ho_Update_def SplitN_dot_2_def)

lemma ha_Update_Some:
  "cut_dot (DNSName e) = Some (h, d) \<Longrightarrow> Targets e = t # ts \<Longrightarrow>
   ha_Update r e = Some (r\<lparr>ha_Hostname := h, ha_Domain := d, ha_Host := t\<rparr>)"
  by (simp add: ha_Update_def SplitN_dot_2_def)

lemma for_each_append:
  "for_each body (xs @ ys) st =
     (case for_each body xs st of
        (Ok u, st') \<Rightarrow> for_each body ys st'
      | (Err e, st') \<Rightarrow> (Err e, st')
      | (Panic, st') \<Rightarrow> (Panic, st'))"
  by (induction xs arbitrary: st) (auto split: prod.splits result.splits)

lemma for_each_map: "for_each body (map g xs) st = for_each (\<lambda>x. body (g x)) xs st"
  by (induction xs arbitrary: st) (auto split: prod.splits result.splits)

lemma update_loop_zip:
  "length olds \<le> length news \<Longrightarrow>
   update_loop api olds news st =
     for_each (process_entry api) (map (\<lambda>(oldEP, newEP). UpdateE oldEP newEP) (zip olds news)) st"
  by (induction api olds news st rule: update_loop.induct)
     (auto split: prod.splits result.splits)

lemma process_entry_bodies:
  "(\<lambda>x. process_entry api (DeleteE x)) = delete_step api"
  "(\<lambda>x. process_entry api (CreateE x)) = create_step api"
  by (simp_all add: fun_eq_iff)

lemma apply_phases_entries:
  assumes "length (UpdateOld c) \<le> length (UpdateNew c)"
  shows "apply_phases api c st = for_each (process_entry api) (batch_entries c) st"
proof -
  have "for_each (process_entry api) (batch_entries c) st =
     (case for_each (delete_step api) (Delete c) st of
        (Ok u, st1) \<Rightarrow>
          (case for_each (create_step api) (Create c) st1 of
             (Ok u, st2) \<Rightarrow> update_loop api (UpdateOld c) (UpdateNew c) st2
           | (Err e, st2) \<Rightarrow> (Err e, st2)
           | (Panic, st2) \<Rightarrow> (Panic, st2))
      | (Err e, st1) \<Rightarrow> (Err e, st1)
      | (Panic, st1) \<Rightarrow> (Panic, st1))"
    unfolding batch_entries_def for_each_append for_each_map process_entry_bodies
      update_loop_zip [OF assms] ..
  then show ?thesis by (simp add: apply_phases_def)
qed

lemma ApplyChanges_entries:
  assumes "hc c" and "length (UpdateOld c) \<le> length (UpdateNew c)"
    and "build_tables api w = (Ok (), st0)"
  shows "ApplyChanges hc api c w =
     (case for_each (process_entry api) (batch_entries c) st0 of (r, st') \<Rightarrow> (r, leave st'))"
  using assms by (simp add: ApplyChanges_def apply_phases_entries)

lemma ApplyChanges_at_entry:
  assumes "hc c" and "length (UpdateOld c) \<le> length (UpdateNew c)"
    and "build_tables api w = (Ok (), st0)"
    and "batch_entries c = pre @ e # post"
    and "for_each (process_entry api) pre st0 = (Ok (), st1)"
  shows "ApplyChanges hc api c w =
     (case process_entry api e st1 of
        (Ok u, st2) \<Rightarrow>
          (case for_each (process_entry api) post st2 of (r, st') \<Rightarrow> (r, leave st'))
      | (Err m, st2) \<Rightarrow> (Err m, leave st2)
      | (Panic, st2) \<Rightarrow> (Panic, leave st2))"
  unfolding ApplyChanges_entries [where hc = hc, OF assms(1-3)] assms(4) for_each_append assms(5)
  by (simp split: prod.splits result.splits)


section \<open>ApplyChanges: update pairs\<close>

lemma update_step_Address:
  assumes "RecordType oldEP = RecordTypeA"
    and "aRecordsByDNSName st (DNSName oldEP) = Some hoOld"
    and "cut_dot (DNSName newEP) = Some (h, d)"
    and "Targets newEP = t # ts"
    and "ho = hoOld\<lparr>ho_Hostname := h, ho_Domain := d, ho_Server := t\<rparr>"
  shows "ho_ID ho = ho_ID hoOld"
    and "calls (snd (update_step api oldEP newEP st)) = calls st @ [UpdateHostOverrideC ho]"
    and "UpdateHostOverride api (backend st) ho = (None, b') \<Longrightarrow>
         update_step api oldEP newEP st =
           (Ok (),
            (slog Info ''updated Host Override'' (called (UpdateHostOverrideC ho) b' st))
              \<lparr>aRecordsByDNSName := (aRecordsByDNSName st)(DNSName newEP \<mapsto> ho)\<rparr>)"
proof -
  have name: "ho_DNSName ho = DNSName newEP"
    using cut_dot_Some [OF assms(3)] assms(5) by (simp add: ho_DNSName_def)
  have upd: "ho_Update hoOld newEP = Some ho"
    using ho_Update_Some [OF assms(3,4)] assms(5) by simp
  show "ho_ID ho = ho_ID hoOld" using assms(5) by simp
  show "calls (snd (update_step api oldEP newEP st)) = calls st @ [UpdateHostOverrideC ho]"
    using assms(1,2) upd
    by (cases "UpdateHostOverride api (backend st) ho")
       (auto simp: update_step_def called_def slog_def Let_def split: option.splits)
  show "update_step api oldEP newEP st =
           (Ok (),
            (slog Info ''updated Host Override'' (called (UpdateHostOverrideC ho) b' st))
              \<lparr>aRecordsByDNSName := (aRecordsByDNSName st)(DNSName newEP \<mapsto> ho)\<rparr>)"
    if "UpdateHostOverride api (backend st) ho = (None, b')"
    using assms(1,2) upd that name by (simp add: update_step_def)
qed

lemma update_step_CanonicalName:
  assumes "RecordType oldEP = RecordTypeCNAME"
    and "cnameRecordsByDNSName st (DNSName oldEP) = Some haOld"
    and "Targets newEP = t # ts"
    and "aRecordsByDNSName st t = Some target"
    and "cut_dot (DNSName newEP) = Some (h, d)"
    and "ha = haOld\<lparr>ha_Hostname := h, ha_Domain := d, ha_Host := t, ha_HostID := ho_ID target\<rparr>"
  shows "ha_ID ha = ha_ID haOld"
    and "calls (snd (update_step api oldEP newEP st)) = calls st @ [UpdateHostAliasC ha]"
    and "UpdateHostAlias api (backend st) ha = (None, b') \<Longrightarrow>
         update_step api oldEP newEP st =
           (Ok (),
            (slog Info ''updated Host Alias'' (called (UpdateHostAliasC ha) b' st))
              \<lparr>cnameRecordsByDNSName := (cnameRecordsByDNSName st)(DNSName newEP \<mapsto> ha)\<rparr>)"
proof -
  have name: "ha_DNSName ha = DNSName newEP"
    using cut_dot_Some [OF assms(5)] assms(6) by (simp add: ha_DNSName_def)
  have upd: "ha_Update haOld newEP = Some (haOld\<lparr>ha_Hostname := h, ha_Domain := d, ha_Host := t\<rparr>)"
    using ha_Update_Some [OF assms(5,3)] by simp
  have kind: "RecordType oldEP \<noteq> RecordTypeA"
    using assms(1) kinds_differ by simp
  show "ha_ID ha = ha_ID haOld" using assms(6) by simp
  show "calls (snd (update_step api oldEP newEP st)) = calls st @ [UpdateHostAliasC ha]"
    using assms(1-4,6) upd kind
    by (cases "UpdateHostAlias api (backend st) ha")
       (auto simp: update_step_def called_def slog_def Let_def split: option.splits)
  show "update_step api oldEP newEP st =
           (Ok (),
            (slog Info ''updated Host Alias'' (called (UpdateHostAliasC ha) b' st))
              \<lparr>cnameRecordsByDNSName := (cnameRecordsByDNSName st)(DNSName newEP \<mapsto> ha)\<rparr>)"
    if "UpdateHostAlias api (backend st) ha = (None, b')"
    using assms(1-4,6) upd kind that name by (simp add: update_step_def Let_def)
qed

lemma tables_a_eval:
  "tables_a = \<lparr>backend = fake_a, calls = [ListHostOverridesC, ListHostAliasesC ''a''], logs = [],
               aRecordsByDNSName = [''a.example.com'' \<mapsto> ho_a],
               cnameRecordsByDNSName = [''cname.example.com'' \<mapsto> ha_cname]\<rparr>"
  by (simp add: tables_a_def eval_defs fake_a_def ho_a_def ha_cname_def)

text \<open>
  C1, as stated, fails: after a successful Address-kind update from \<open>a.example.com\<close> to
  \<open>b.example.com\<close> the address table holds the updated record under the new name, and
  still holds the record as it was under the old name.
\<close>

theorem update_step_keeps_old_key:
  "RecordType (ep ''a.example.com'' ''A'' [''127.0.0.1'']) = RecordTypeA \<and>
   aRecordsByDNSName tables_a ''a.example.com'' = Some ho_a \<and>
   fst (update_step fake (ep ''a.example.com'' ''A'' [''127.0.0.1''])
          (ep ''b.example.com'' ''A'' [''127.0.0.1'']) tables_a) = Ok () \<and>
   aRecordsByDNSName
     (snd (update_step fake (ep ''a.example.com'' ''A'' [''127.0.0.1''])
          (ep ''b.example.com'' ''A'' [''127.0.0.1'']) tables_a)) ''b.example.com''
     = Some (ho_a\<lparr>ho_Hostname := ''b''\<rparr>) \<and>
   aRecordsByDNSName
     (snd (update_step fake (ep ''a.example.com'' ''A'' [''127.0.0.1''])
          (ep ''b.example.com'' ''A'' [''127.0.0.1'']) tables_a)) ''a.example.com''
     = Some ho_a"
  by (simp add: tables_a_eval) (simp add: eval_defs ho_a_def)


text \<open>
  C1, amended: for an update pair whose old endpoint is of Address kind and whose old full
  name is in the address table, when the new endpoint's name has a dot and it has a target,
  the record's hostname, domain and target are overwritten from the new endpoint, the remote
  update is issued with that record (its ID unchanged), and when the update succeeds the record
  is stored in the address table under the new full name; no entry is removed, so under a
  different old name the table still holds the record as it was. Likewise for a CanonicalName
  pair whose new first target is in the address table: the alias takes hostname, domain and
  reference name from the new endpoint and the target record's ID as foreign key, and a
  successful update stores it in the alias table under the new full name.
\<close>

theorem update_step_stores_under_new_name:
  "(RecordType oldEP = RecordTypeA \<and> aRecordsByDNSName st (DNSName oldEP) = Some hoOld \<and>
    cut_dot (DNSName newEP) = Some (h, d) \<and> Targets newEP = t # ts \<and>
    ho = hoOld\<lparr>ho_Hostname := h, ho_Domain := d, ho_Server := t\<rparr> \<longrightarrow>
      ho_ID ho = ho_ID hoOld \<and>
      calls (snd (update_step api oldEP newEP st)) = calls st @ [UpdateHostOverrideC ho] \<and>
      (UpdateHostOverride api (backend st) ho = (None, b') \<longrightarrow>
         fst (update_step api oldEP newEP st) = Ok () \<and>
         aRecordsByDNSName (snd (update_step api oldEP newEP st))
           = (aRecordsByDNSName st)(DNSName newEP \<mapsto> ho) \<and>
         (DNSName oldEP \<noteq> DNSName newEP \<longrightarrow>
            aRecordsByDNSName (snd (update_step api oldEP newEP st)) (DNSName oldEP) = Some hoOld))) \<and>
   (RecordType oldEP = RecordTypeCNAME \<and> cnameRecordsByDNSName st (DNSName oldEP) = Some haOld \<and>
    Targets newEP = t # ts \<and> aRecordsByDNSName st t = Some target \<and>
    cut_dot (DNSName newEP) = Some (h, d) \<and>
    ha = haOld\<lparr>ha_Hostname := h, ha_Domain := d, ha_Host := t, ha_HostID := ho_ID target\<rparr> \<longrightarrow>
      ha_ID ha = ha_ID haOld \<and>
      calls (snd (update_step api oldEP newEP st)) = calls st @ [UpdateHostAliasC ha] \<and>
      (UpdateHostAlias api (backend st) ha = (None, b') \<longrightarrow>
         fst (update_step api oldEP newEP st) = Ok () \<and>
         cnameRecordsByDNSName (snd (update_step api oldEP newEP st))
           = (cnameRecordsByDNSName st)(DNSName newEP \<mapsto> ha) \<and>
         (DNSName oldEP \<noteq> DNSName newEP \<longrightarrow>
            cnameRecordsByDNSName (snd (update_step api oldEP newEP st)) (DNSName oldEP)
              = Some haOld)))"
proof (intro conjI impI; (elim conjE)?)
  assume a: "RecordType oldEP = RecordTypeA" "aRecordsByDNSName st (DNSName oldEP) = Some hoOld"
    "cut_dot (DNSName newEP) = Some (h, d)" "Targets newEP = t # ts"
    "ho = hoOld\<lparr>ho_Hostname := h, ho_Domain := d, ho_Server := t\<rparr>"
  show "ho_ID ho = ho_ID hoOld"
    by (rule update_step_Address(1) [OF a])
  show "calls (snd (update_step api oldEP newEP st)) = calls st @ [UpdateHostOverrideC ho]"
    by (rule update_step_Address(2) [OF a])
  assume ok: "UpdateHostOverride api (backend st) ho = (None, b')"
  note eq = update_step_Address(3) [OF a ok]
  show "fst (update_step api oldEP newEP st) = Ok ()"
    by (simp add: eq)
  show "aRecordsByDNSName (snd (update_step api oldEP newEP st))
           = (aRecordsByDNSName st)(DNSName newEP \<mapsto> ho)"
    by (simp add: eq)
  assume "DNSName oldEP \<noteq> DNSName newEP"
  then show "aRecordsByDNSName (snd (update_step api oldEP newEP st)) (DNSName oldEP) = Some hoOld"
    using a(2) by (simp add: eq)
next
  assume a: "RecordType oldEP = RecordTypeCNAME"
    "cnameRecordsByDNSName st (DNSName oldEP) = Some haOld"
    "Targets newEP = t # ts" "aRecordsByDNSName st t = Some target"
    "cut_dot (DNSName newEP) = Some (h, d)"
    "ha = haOld\<lparr>ha_Hostname := h, ha_Domain := d, ha_Host := t, ha_HostID := ho_ID target\<rparr>"
  show "ha_ID ha = ha_ID haOld"
    by (rule update_step_CanonicalName(1) [OF a])
  show "calls (snd (update_step api oldEP newEP st)) = calls st @ [UpdateHostAliasC ha]"
    by (rule update_step_CanonicalName(2) [OF a])
  assume ok: "UpdateHostAlias api (backend st) ha = (None, b')"
  note eq = update_step_CanonicalName(3) [OF a ok]
  show "fst (update_step api oldEP newEP st) = Ok ()"
    by (simp add: eq)
  show "cnameRecordsByDNSName (snd (update_step api oldEP newEP st))
           = (cnameRecordsByDNSName st)(DNSName newEP \<mapsto> ha)"
    by (simp add: eq)
  assume "DNSName oldEP \<noteq> DNSName newEP"
  then show "cnameRecordsByDNSName (snd (update_step api oldEP newEP st)) (DNSName oldEP)
              = Some haOld"
    using a(2) by (simp add: eq)
qed

theorem update_step_stores_under_new_name_witness:
  "RecordType (ep ''a.example.com'' ''A'' [''127.0.0.1'']) = RecordTypeA \<and>
   aRecordsByDNSName tables_a ''a.example.com'' = Some ho_a \<and>
   cut_dot ''b.example.com'' = Some (''b'', ''example.com'') \<and>
   fst (UpdateHostOverride fake fake_a
     (ho_a\<lparr>ho_Hostname := ''b'', ho_Domain := ''example.com'', ho_Server := ''127.0.0.2''\<rparr>))
     = None \<and>
   calls (snd (update_step fake (ep ''a.example.com'' ''A'' [''127.0.0.1''])
      (ep ''b.example.com'' ''A'' [''127.0.0.2'']) tables_a))
     = [ListHostOverridesC, ListHostAliasesC ''a'',
        UpdateHostOverrideC
          (ho_a\<lparr>ho_Hostname := ''b'', ho_Domain := ''example.com'', ho_Server := ''127.0.0.2''\<rparr>)] \<and>
   aRecordsByDNSName (snd (update_step fake (ep ''a.example.com'' ''A'' [''127.0.0.1''])
      (ep ''b.example.com'' ''A'' [''127.0.0.2'']) tables_a)) ''b.example.com''
     = Some (ho_a\<lparr>ho_Hostname := ''b'', ho_Domain := ''example.com'', ho_Server := ''127.0.0.2''\<rparr>) \<and>
   aRecordsByDNSName (snd (update_step fake (ep ''a.example.com'' ''A'' [''127.0.0.1''])
      (ep ''b.example.com'' ''A'' [''127.0.0.2'']) tables_a)) ''a.example.com'' = Some ho_a \<and>
   RecordType (ep ''cname.example.com'' ''CNAME'' [''a.example.com'']) = RecordTypeCNAME \<and>
   cnameRecordsByDNSName tables_a ''cname.example.com'' = Some ha_cname \<and>
   cut_dot ''cname2.example.com'' = Some (''cname2'', ''example.com'') \<and>
   calls (snd (update_step fake (ep ''cname.example.com'' ''CNAME'' [''a.example.com''])
      (ep ''cname2.example.com'' ''CNAME'' [''a.example.com'']) tables_a))
     = [ListHostOverridesC, ListHostAliasesC ''a'',
        UpdateHostAliasC (ha_cname\<lparr>ha_Hostname := ''cname2''\<rparr>)] \<and>
   cnameRecordsByDNSName (snd (update_step fake (ep ''cname.example.com'' ''CNAME'' [''a.example.com''])
      (ep ''cname2.example.com'' ''CNAME'' [''a.example.com'']) tables_a)) ''cname2.example.com''
     = Some (ha_cname\<lparr>ha_Hostname := ''cname2''\<rparr>) \<and>
   cnameRecordsByDNSName (snd (update_step fake (ep ''cname.example.com'' ''CNAME'' [''a.example.com''])
      (ep ''cname2.example.com'' ''CNAME'' [''a.example.com'']) tables_a)) ''cname.example.com''
     = Some ha_cname"
proof -
  let ?old = "ep ''a.example.com'' ''A'' [''127.0.0.1'']"
  let ?new = "ep ''b.example.com'' ''A'' [''127.0.0.2'']"
  let ?ho = "ho_a\<lparr>ho_Hostname := ''b'', ho_Domain := ''example.com'', ho_Server := ''127.0.0.2''\<rparr>"
  let ?b = "fake_a\<lparr>hostOverrides := [?ho]\<rparr>"
  have cut1: "cut_dot ''b.example.com'' = Some (''b'', ''example.com'')" by simp
  have tab1: "aRecordsByDNSName tables_a ''a.example.com'' = Some ho_a"
    by (simp add: tables_a_eval)
  have hyp1: "RecordType ?old = RecordTypeA \<and> aRecordsByDNSName tables_a (DNSName ?old) = Some ho_a \<and>
    cut_dot (DNSName ?new) = Some (''b'', ''example.com'') \<and> Targets ?new = ''127.0.0.2'' # [] \<and>
    ?ho = ho_a\<lparr>ho_Hostname := ''b'', ho_Domain := ''example.com'', ho_Server := ''127.0.0.2''\<rparr>"
    using cut1 tab1 by (simp add: ep_def RecordTypeA_def)
  have ok1: "UpdateHostOverride fake (backend tables_a) ?ho = (None, ?b)"
    by (simp add: tables_a_eval fake_def fake_a_def ho_a_def)
  have ne1: "DNSName ?old \<noteq> DNSName ?new" by (simp add: ep_def)
  note A = update_step_stores_under_new_name
    [where oldEP = ?old and newEP = ?new and st = tables_a and hoOld = ho_a and h = "''b''"
       and d = "''example.com''" and t = "''127.0.0.2''" and ts = "[]" and api = fake
       and ho = ?ho and b' = ?b, THEN conjunct1, THEN mp, OF hyp1]
  note A2 = A [THEN conjunct2, THEN conjunct1]
  note A3 = A [THEN conjunct2, THEN conjunct2, THEN mp, OF ok1]
  note A4 = A3 [THEN conjunct2, THEN conjunct1]
  note A5 = A3 [THEN conjunct2, THEN conjunct2, THEN mp, OF ne1]
  let ?old2 = "ep ''cname.example.com'' ''CNAME'' [''a.example.com'']"
  let ?new2 = "ep ''cname2.example.com'' ''CNAME'' [''a.example.com'']"
  let ?ha = "ha_cname\<lparr>ha_Hostname := ''cname2''\<rparr>"
  let ?b2 = "fake_a\<lparr>hostAliases := [?ha]\<rparr>"
  have cut2: "cut_dot ''cname2.example.com'' = Some (''cname2'', ''example.com'')" by simp
  have tab2: "cnameRecordsByDNSName tables_a ''cname.example.com'' = Some ha_cname"
    by (simp add: tables_a_eval)
  have hyp2: "RecordType ?old2 = RecordTypeCNAME \<and>
    cnameRecordsByDNSName tables_a (DNSName ?old2) = Some ha_cname \<and>
    Targets ?new2 = ''a.example.com'' # [] \<and> aRecordsByDNSName tables_a ''a.example.com'' = Some ho_a \<and>
    cut_dot (DNSName ?new2) = Some (''cname2'', ''example.com'') \<and>
    ?ha = ha_cname\<lparr>ha_Hostname := ''cname2'', ha_Domain := ''example.com'',
             ha_Host := ''a.example.com'', ha_HostID := ho_ID ho_a\<rparr>"
    using cut2 tab1 tab2 by (simp add: ep_def RecordTypeCNAME_def ha_cname_def ho_a_def)
  have ok2: "UpdateHostAlias fake (backend tables_a) ?ha = (None, ?b2)"
    by (simp add: tables_a_eval fake_def fake_a_def ha_cname_def)
  have ne2: "DNSName ?old2 \<noteq> DNSName ?new2" by (simp add: ep_def)
  note B = update_step_stores_under_new_name
    [where oldEP = ?old2 and newEP = ?new2 and st = tables_a and haOld = ha_cname
       and h = "''cname2''" and d = "''example.com''" and t = "''a.example.com''" and ts = "[]"
       and api = fake and target = ho_a and ha = ?ha and b' = ?b2,
     THEN conjunct2, THEN mp, OF hyp2]
  note B2 = B [THEN conjunct2, THEN conjunct1]
  note B3 = B [THEN conjunct2, THEN conjunct2, THEN mp, OF ok2]
  note B4 = B3 [THEN conjunct2, THEN conjunct1]
  note B5 = B3 [THEN conjunct2, THEN conjunct2, THEN mp, OF ne2]
  have c1: "calls tables_a = [ListHostOverridesC, ListHostAliasesC ''a'']"
    by (simp add: tables_a_eval)
  have k1: "RecordType ?old = RecordTypeA" and k2: "RecordType ?old2 = RecordTypeCNAME"
    by (simp_all add: ep_def RecordTypeA_def RecordTypeCNAME_def)
  have f1: "fst (UpdateHostOverride fake fake_a ?ho) = None"
    by (simp add: fake_def)
  have n1: "DNSName ?old = ''a.example.com''" "DNSName ?new = ''b.example.com''"
    "DNSName ?old2 = ''cname.example.com''" "DNSName ?new2 = ''cname2.example.com''"
    by (simp_all add: ep_def)
  show ?thesis
    using A2 A4 A5 B2 B4 B5 unfolding n1 c1
    by (simp only: k1 k2 tab1 tab2 cut1 cut2 f1 fun_upd_same append.simps simp_thms)
qed

section \<open>ApplyChanges: creating an alias\<close>

lemma build_tables_a: "build_tables fake (start fake_a) = (Ok (), tables_a)"
proof -
  have "fst (build_tables fake (start fake_a)) = Ok ()"
    by (simp add: eval_defs fake_a_def)
  then show ?thesis
    by (simp add: tables_a_def prod_eq_iff)
qed

lemma create_step_alias_missing:
  assumes "RecordType e = RecordTypeCNAME" and "Targets e = t # ts"
    and "aRecordsByDNSName st t = None"
  shows "create_step api e st =
     (Err ''failed to create host alias: target host override not found'',
      slog Warn ''Target Host Override not found for Host Alias'' st)"
  using assms kinds_differ by (simp add: create_step_def)

lemma create_step_alias_present:
  assumes "RecordType e = RecordTypeCNAME" and "Targets e = t # ts"
    and "aRecordsByDNSName st t = Some target"
    and "cut_dot (DNSName e) = Some (h, d)"
    and "ha = \<lparr>ha_ID = [], ha_Enabled = [], ha_Host = t, ha_HostID = ho_ID target,
               ha_Hostname = h, ha_Domain = d, ha_Description = []\<rparr>"
  shows "calls (snd (create_step api e st)) = calls st @ [CreateHostAliasC ha]"
    and "CreateHostAlias api (backend st) ha = (Inr ha', b') \<Longrightarrow>
         create_step api e st =
           (Ok (),
            (slog Info ''created Host Alias'' (called (CreateHostAliasC ha) b' st))
              \<lparr>cnameRecordsByDNSName := (cnameRecordsByDNSName st)(ha_DNSName ha' \<mapsto> ha')\<rparr>)"
proof -
  have upd: "ha_Update (HostAlias_for (ho_ID target)) e = Some ha"
    using ha_Update_Some [OF assms(4,2)] assms(5) by (simp add: HostAlias_for_def)
  have kind: "RecordType e \<noteq> RecordTypeA"
    using assms(1) kinds_differ by simp
  show "calls (snd (create_step api e st)) = calls st @ [CreateHostAliasC ha]"
    using assms(1-3) upd kind
    by (cases "CreateHostAlias api (backend st) ha")
       (auto simp: create_step_def called_def slog_def split: sum.splits)
  show "create_step api e st =
           (Ok (),
            (slog Info ''created Host Alias'' (called (CreateHostAliasC ha) b' st))
              \<lparr>cnameRecordsByDNSName := (cnameRecordsByDNSName st)(ha_DNSName ha' \<mapsto> ha')\<rparr>)"
    if "CreateHostAlias api (backend st) ha = (Inr ha', b')"
    using assms(1-3) upd kind that by (simp add: create_step_def)
qed

lemma ApplyChanges_create_fails:
  assumes "Create c = pre @ e # post" and "hc c"
    and "build_tables api w = (Ok (), stB)"
    and "for_each (delete_step api) (Delete c) stB = (Ok (), stD)"
    and "for_each (create_step api) pre stD = (Ok (), st)"
    and "create_step api e st = (Err m, st')"
  shows "ApplyChanges hc api c w = (Err m, leave st')"
proof -
  have "for_each (create_step api) (Create c) stD = (Err m, st')"
    unfolding assms(1) for_each_append using assms(5,6) by simp
  then show ?thesis
    using assms(2,3,4) by (simp add: ApplyChanges_def apply_phases_def)
qed

text \<open>
  C2: when \<open>ApplyChanges\<close> reaches a Create entry of CanonicalName kind (the tables are
  built, the deletes and the earlier creates went through) whose first target is not a key of
  the address table at that moment, the whole operation returns the error "target host
  override not found" and issues no call for the entry or after it; when the target is a key,
  the alias-create call is issued with the hostname and domain of the endpoint, the target as
  reference name and the ID of the address record found as foreign key, and on success the
  record the backend returns is entered in the alias table under its full name.
\<close>

theorem create_alias_requires_target:
  assumes "Create c = pre @ e # post" and "hc c"
    and "build_tables api w = (Ok (), stB)"
    and "for_each (delete_step api) (Delete c) stB = (Ok (), stD)"
    and "for_each (create_step api) pre stD = (Ok (), st)"
    and "RecordType e = RecordTypeCNAME"
    and "Targets e = t # ts"
  shows
   "(aRecordsByDNSName st t = None \<longrightarrow>
       ApplyChanges hc api c w =
         (Err ''failed to create host alias: target host override not found'',
          leave (slog Warn ''Target Host Override not found for Host Alias'' st)) \<and>
       calls (snd (ApplyChanges hc api c w)) = calls st \<and>
       backend (snd (ApplyChanges hc api c w)) = backend st) \<and>
    (aRecordsByDNSName st t = Some target \<and> cut_dot (DNSName e) = Some (h, d) \<and>
     ha = \<lparr>ha_ID = [], ha_Enabled = [], ha_Host = t, ha_HostID = ho_ID target,
           ha_Hostname = h, ha_Domain = d, ha_Description = []\<rparr> \<longrightarrow>
       calls (snd (create_step api e st)) = calls st @ [CreateHostAliasC ha] \<and>
       (CreateHostAlias api (backend st) ha = (Inr ha', b') \<longrightarrow>
          fst (create_step api e st) = Ok () \<and>
          backend (snd (create_step api e st)) = b' \<and>
          cnameRecordsByDNSName (snd (create_step api e st))
            = (cnameRecordsByDNSName st)(ha_DNSName ha' \<mapsto> ha')))"
proof (intro conjI impI; (elim conjE)?)
  assume miss: "aRecordsByDNSName st t = None"
  note eq = ApplyChanges_create_fails
    [where hc = hc, OF assms(1-5) create_step_alias_missing [OF assms(6,7) miss]]
  show "ApplyChanges hc api c w =
         (Err ''failed to create host alias: target host override not found'',
          leave (slog Warn ''Target Host Override not found for Host Alias'' st))"
    by (rule eq)
  show "calls (snd (ApplyChanges hc api c w)) = calls st"
    by (simp add: eq leave_def slog_def)
  show "backend (snd (ApplyChanges hc api c w)) = backend st"
    by (simp add: eq leave_def slog_def)
next
  assume a: "aRecordsByDNSName st t = Some target" "cut_dot (DNSName e) = Some (h, d)"
    "ha = \<lparr>ha_ID = [], ha_Enabled = [], ha_Host = t, ha_HostID = ho_ID target,
           ha_Hostname = h, ha_Domain = d, ha_Description = []\<rparr>"
  show "calls (snd (create_step api e st)) = calls st @ [CreateHostAliasC ha]"
    by (rule create_step_alias_present(1) [OF assms(6,7) a])
  assume ok: "CreateHostAlias api (backend st) ha = (Inr ha', b')"
  note eq = create_step_alias_present(2) [OF assms(6,7) a ok]
  show "fst (create_step api e st) = Ok ()"
    by (simp add: eq)
  show "backend (snd (create_step api e st)) = b'"
    by (simp add: eq called_def slog_def)
  show "cnameRecordsByDNSName (snd (create_step api e st))
            = (cnameRecordsByDNSName st)(ha_DNSName ha' \<mapsto> ha')"
    by (simp add: eq)
qed


theorem create_alias_requires_target_witness:
  "ApplyChanges HasChanges fake
     \<lparr>Create = [ep ''www.example.com'' ''CNAME'' [''nope.example.com'']], Delete = [],
      UpdateOld = [], UpdateNew = []\<rparr> (start fake_a)
     = (Err ''failed to create host alias: target host override not found'',
        \<lparr>backend = fake_a, calls = [ListHostOverridesC, ListHostAliasesC ''a''],
         logs = [(Warn, ''Target Host Override not found for Host Alias'')]\<rparr>) \<and>
   aRecordsByDNSName tables_a ''nope.example.com'' = None \<and>
   aRecordsByDNSName tables_a ''a.example.com'' = Some ho_a \<and>
   calls (snd (create_step fake (ep ''www.example.com'' ''CNAME'' [''a.example.com'']) tables_a))
     = [ListHostOverridesC, ListHostAliasesC ''a'',
        CreateHostAliasC
          \<lparr>ha_ID = [], ha_Enabled = [], ha_Host = ''a.example.com'', ha_HostID = ''a'',
           ha_Hostname = ''www'', ha_Domain = ''example.com'', ha_Description = []\<rparr>] \<and>
   cnameRecordsByDNSName
     (snd (create_step fake (ep ''www.example.com'' ''CNAME'' [''a.example.com'']) tables_a))
     ''www.example.com''
     = Some \<lparr>ha_ID = ''7'', ha_Enabled = [], ha_Host = ''a.example.com'', ha_HostID = ''a'',
             ha_Hostname = ''www'', ha_Domain = ''example.com'', ha_Description = []\<rparr>"
proof -
  let ?e = "ep ''www.example.com'' ''CNAME'' [''nope.example.com'']"
  let ?c = "\<lparr>Create = [?e], Delete = [], UpdateOld = [], UpdateNew = []\<rparr>"
  have cr: "Create ?c = [] @ ?e # []" by simp
  have hc: "HasChanges ?c" by (simp add: HasChanges_def)
  have del: "for_each (delete_step fake) (Delete ?c) tables_a = (Ok (), tables_a)" by simp
  have pre: "for_each (create_step fake) [] tables_a = (Ok (), tables_a)" by simp
  have kind: "RecordType ?e = RecordTypeCNAME" by (simp add: ep_def RecordTypeCNAME_def)
  have tg: "Targets ?e = ''nope.example.com'' # []" by (simp add: ep_def)
  have miss: "aRecordsByDNSName tables_a ''nope.example.com'' = None"
    by (simp add: tables_a_eval)
  note A = create_alias_requires_target [where hc = HasChanges, OF cr hc build_tables_a del pre kind tg,
      THEN conjunct1, THEN mp, OF miss, THEN conjunct1]
  let ?f = "ep ''www.example.com'' ''CNAME'' [''a.example.com'']"
  let ?d = "\<lparr>Create = [?f], Delete = [], UpdateOld = [], UpdateNew = []\<rparr>"
  let ?ha = "\<lparr>ha_ID = [], ha_Enabled = [], ha_Host = ''a.example.com'', ha_HostID = ''a'',
           ha_Hostname = ''www'', ha_Domain = ''example.com'', ha_Description = []\<rparr>"
  let ?ha' = "\<lparr>ha_ID = ''7'', ha_Enabled = [], ha_Host = ''a.example.com'', ha_HostID = ''a'',
           ha_Hostname = ''www'', ha_Domain = ''example.com'', ha_Description = []\<rparr>"
  let ?b = "fake_a\<lparr>hostAliases := [ha_cname, ?ha'], next_rand := 8\<rparr>"
  have cr2: "Create ?d = [] @ ?f # []" by simp
  have hc2: "HasChanges ?d" by (simp add: HasChanges_def)
  have del2: "for_each (delete_step fake) (Delete ?d) tables_a = (Ok (), tables_a)" by simp
  have kind2: "RecordType ?f = RecordTypeCNAME" by (simp add: ep_def RecordTypeCNAME_def)
  have tg2: "Targets ?f = ''a.example.com'' # []" by (simp add: ep_def)
  have hit: "aRecordsByDNSName tables_a ''a.example.com'' = Some ho_a"
    by (simp add: tables_a_eval)
  have hyp: "aRecordsByDNSName tables_a ''a.example.com'' = Some ho_a \<and>
     cut_dot (DNSName ?f) = Some (''www'', ''example.com'') \<and>
     ?ha = \<lparr>ha_ID = [], ha_Enabled = [], ha_Host = ''a.example.com'', ha_HostID = ho_ID ho_a,
           ha_Hostname = ''www'', ha_Domain = ''example.com'', ha_Description = []\<rparr>"
    using hit by (simp add: ep_def ho_a_def)
  have ok: "CreateHostAlias fake (backend tables_a) ?ha = (Inr ?ha', ?b)"
    by (simp add: tables_a_eval fake_def fake_a_def Itoa.simps Let_def)
  note B = create_alias_requires_target [where hc = HasChanges, OF cr2 hc2 build_tables_a del2 pre kind2 tg2,
      THEN conjunct2, THEN mp, OF hyp]
  note B1 = B [THEN conjunct1]
  note B2 = B [THEN conjunct2, THEN mp, OF ok, THEN conjunct2, THEN conjunct2]
  have c1: "calls tables_a = [ListHostOverridesC, ListHostAliasesC ''a'']"
    by (simp add: tables_a_eval)
  have l1: "leave (slog Warn ''Target Host Override not found for Host Alias'' tables_a)
     = \<lparr>backend = fake_a, calls = [ListHostOverridesC, ListHostAliasesC ''a''],
         logs = [(Warn, ''Target Host Override not found for Host Alias'')]\<rparr>"
    by (simp add: tables_a_eval leave_def slog_def)
  have n: "ha_DNSName ?ha' = ''www.example.com''"
    by (simp add: ha_DNSName_def dotted_def)
  show ?thesis
    using A B1 B2 unfolding l1 c1 n
    by (simp only: miss hit fun_upd_same append.simps simp_thms)
qed

section \<open>Records\<close>

lemma Records_loop_observational:
  assumes "\<forall>r\<in>set res. ListHostAliases api (backend w) (ho_ID r) = (Inr (al (ho_ID r)), backend w)"
  shows "Records_loop api res acc w =
     (Ok (acc @ concat (map (\<lambda>r. ho_Endpoint r # map ha_Endpoint (al (ho_ID r))) res)),
      slog Info ''list records'' (w\<lparr>calls := calls w @ map (\<lambda>r. ListHostAliasesC (ho_ID r)) res\<rparr>))"
  using assms
proof (induction res arbitrary: acc w)
  case Nil
  then show ?case by simp
next
  case (Cons r res)
  let ?w = "called (ListHostAliasesC (ho_ID r)) (backend w) w"
  have b: "backend ?w = backend w" by (simp add: called_def)
  have step: "ListHostAliases api (backend w) (ho_ID r) = (Inr (al (ho_ID r)), backend w)"
    using Cons.prems by simp
  have rest: "\<forall>r\<in>set res. ListHostAliases api (backend ?w) (ho_ID r) = (Inr (al (ho_ID r)), backend ?w)"
    using Cons.prems b by simp
  show ?case
    by (simp add: step Cons.IH [OF rest]) (simp add: called_def)
qed

text \<open>
  C5: when the backend lists its address records and, for each of them, its aliases (listing
  leaves the backend as it is), \<open>Records\<close> returns, for each address record in the order
  listed, its Address-kind endpoint (name hostname.domain, the stored server as only target)
  followed by one CanonicalName-kind endpoint per alias listed for that record (name
  hostname.domain, the stored reference name as only target); it issues one list call for the
  address records and one per record for its aliases. With no address record the result is
  empty.
\<close>

theorem Records_flatten:
  assumes "ListHostOverrides api (backend w) = (Inr res, b)"
    and "\<forall>r\<in>set res. ListHostAliases api b (ho_ID r) = (Inr (al (ho_ID r)), b)"
  shows "fst (Records api w) =
           Ok (concat (map (\<lambda>r. ho_Endpoint r # map ha_Endpoint (al (ho_ID r))) res)) \<and>
         calls (snd (Records api w)) =
           calls w @ ListHostOverridesC # map (\<lambda>r. ListHostAliasesC (ho_ID r)) res \<and>
         backend (snd (Records api w)) = b \<and>
         (res = [] \<longrightarrow> fst (Records api w) = Ok []) \<and>
         (\<forall>r. ho_Endpoint r =
            \<lparr>DNSName = ho_Hostname r @ ''.'' @ ho_Domain r, Targets = [ho_Server r],
             RecordType = RecordTypeA\<rparr>) \<and>
         (\<forall>r. ha_Endpoint r =
            \<lparr>DNSName = ha_Hostname r @ ''.'' @ ha_Domain r, Targets = [ha_Host r],
             RecordType = RecordTypeCNAME\<rparr>)"
proof -
  let ?w = "called ListHostOverridesC b w"
  have "\<forall>r\<in>set res. ListHostAliases api (backend ?w) (ho_ID r) = (Inr (al (ho_ID r)), backend ?w)"
    using assms(2) by (simp add: called_def)
  from Records_loop_observational [OF this, of "[]"] assms(1)
  have "fst (Records api w) =
           Ok (concat (map (\<lambda>r. ho_Endpoint r # map ha_Endpoint (al (ho_ID r))) res)) \<and>
         calls (snd (Records api w)) =
           calls w @ ListHostOverridesC # map (\<lambda>r. ListHostAliasesC (ho_ID r)) res \<and>
         backend (snd (Records api w)) = b \<and>
         (res = [] \<longrightarrow> fst (Records api w) = Ok [])"
    by (simp add: Records_def called_def slog_def)
  moreover have "\<forall>r. ho_Endpoint r =
            \<lparr>DNSName = ho_Hostname r @ ''.'' @ ho_Domain r, Targets = [ho_Server r],
             RecordType = RecordTypeA\<rparr>"
    by (simp add: ho_Endpoint_def dotted_def NewTargets_def RecordTypeA_def)
  moreover have "\<forall>r. ha_Endpoint r =
            \<lparr>DNSName = ha_Hostname r @ ''.'' @ ha_Domain r, Targets = [ha_Host r],
             RecordType = RecordTypeCNAME\<rparr>"
    by (simp add: ha_Endpoint_def dotted_def NewTargets_def RecordTypeCNAME_def)
  ultimately show ?thesis by blast
qed

theorem Records_flatten_witness:
  "ListHostOverrides fake (backend (start fake_berkin)) = (Inr [ho_berkin], fake_berkin) \<and>
   ListHostAliases fake fake_berkin (ho_ID ho_berkin) = (Inr [ha_derkin], fake_berkin) \<and>
   fst (Records fake (start fake_berkin)) =
     Ok [ep ''berkin.example.com'' ''A'' [''127.0.0.1''],
         ep ''derkin.example.com'' ''CNAME'' [''berkin.example.com'']] \<and>
   calls (snd (Records fake (start fake_berkin))) = [ListHostOverridesC, ListHostAliasesC ''berkin''] \<and>
   ListHostOverrides fake (backend (start fake_empty)) = (Inr [], fake_empty) \<and>
   fst (Records fake (start fake_empty)) = Ok []"
proof -
  have l1: "ListHostOverrides fake (backend (start fake_berkin)) = (Inr [ho_berkin], fake_berkin)"
    by (simp add: fake_def start_def fake_berkin_def)
  have a1: "ListHostAliases fake fake_berkin (ho_ID ho_berkin) = (Inr [ha_derkin], fake_berkin)"
    by (simp add: fake_def fake_berkin_def)
  then have a1': "\<forall>r\<in>set [ho_berkin].
      ListHostAliases fake fake_berkin (ho_ID r) = (Inr ((\<lambda>_. [ha_derkin]) (ho_ID r)), fake_berkin)"
    by simp
  note R = Records_flatten [OF l1 a1']
  note A = R [THEN conjunct1] R [THEN conjunct2, THEN conjunct1]
  have l2: "ListHostOverrides fake (backend (start fake_empty)) = (Inr [], fake_empty)"
    by (simp add: fake_def start_def fake_empty_def)
  have a2: "\<forall>r\<in>set []. ListHostAliases fake fake_empty (ho_ID r)
      = (Inr ((\<lambda>_. []) (ho_ID r)), fake_empty)"
    by simp
  note B = Records_flatten [OF l2 a2, THEN conjunct2, THEN conjunct2, THEN conjunct2,
      THEN conjunct1, THEN mp, OF refl]
  have e: "concat (map (\<lambda>r. ho_Endpoint r # map ha_Endpoint [ha_derkin]) [ho_berkin])
     = [ep ''berkin.example.com'' ''A'' [''127.0.0.1''],
         ep ''derkin.example.com'' ''CNAME'' [''berkin.example.com'']]"
    by (simp add: ho_Endpoint_def ha_Endpoint_def ho_berkin_def ha_derkin_def ep_def dotted_def
        NewTargets_def)
  have c: "calls (start fake_berkin) @ ListHostOverridesC # map (\<lambda>r. ListHostAliasesC (ho_ID r)) [ho_berkin]
     = [ListHostOverridesC, ListHostAliasesC ''berkin'']"
    by (simp add: start_def ho_berkin_def)
  show ?thesis
    using A B l1 a1 l2 unfolding e c by simp
qed

section \<open>ApplyChanges: the order of the batch\<close>














section \<open>ApplyChanges: lookup misses and unsupported kinds\<close>

lemma ApplyChanges_goes_on:
  assumes "hc c" and "length (UpdateOld c) \<le> length (UpdateNew c)"
    and "build_tables api w = (Ok (), stB)"
    and "batch_entries c = pre @ e # post"
    and "for_each (process_entry api) pre stB = (Ok (), st)"
    and "process_entry api e st = (Ok (), stN)"
  shows "ApplyChanges hc api c w = go_on api post stN"
  using ApplyChanges_at_entry [where hc = hc, OF assms(1-5)] assms(6) by (simp add: go_on_def)

lemma ApplyChanges_aborts:
  assumes "hc c" and "length (UpdateOld c) \<le> length (UpdateNew c)"
    and "build_tables api w = (Ok (), stB)"
    and "batch_entries c = pre @ e # post"
    and "for_each (process_entry api) pre stB = (Ok (), st)"
    and "process_entry api e st = (Err m, stE)"
  shows "ApplyChanges hc api c w = (Err m, leave stE)"
  using ApplyChanges_at_entry [where hc = hc, OF assms(1-5)] assms(6) by simp

text \<open>
  C3: when \<open>ApplyChanges\<close> reaches an entry of the batch (the tables are built and the
  entries before it went through), a lookup miss only writes a warning and processing goes on
  with the next entry for a Delete entry of Address or CanonicalName kind and for an
  Address-kind update pair; an entry of any other kind is skipped with the warning
  "unsupported record type" in all three loops; the operation returns an error for a
  CanonicalName update pair whose old name is not in the alias table, for a CanonicalName
  update pair whose new first target is not in the address table, and for a CanonicalName
  create whose first target is not in the address table.
\<close>

theorem lookup_miss_policy:
  assumes "hc c" and "length (UpdateOld c) \<le> length (UpdateNew c)"
    and "build_tables api w = (Ok (), stB)"
    and "batch_entries c = pre @ e # post"
    and "for_each (process_entry api) pre stB = (Ok (), st)"
  shows
   "(e = DeleteE x \<and> RecordType x = RecordTypeA \<and> aRecordsByDNSName st (DNSName x) = None \<longrightarrow>
       ApplyChanges hc api c w = go_on api post (slog Warn ''Host Override not found'' st)) \<and>
    (e = DeleteE x \<and> RecordType x = RecordTypeCNAME \<and>
     cnameRecordsByDNSName st (DNSName x) = None \<longrightarrow>
       ApplyChanges hc api c w = go_on api post (slog Warn ''Host Alias not found'' st)) \<and>
    (e = UpdateE x y \<and> RecordType x = RecordTypeA \<and> aRecordsByDNSName st (DNSName x) = None \<longrightarrow>
       ApplyChanges hc api c w = go_on api post (slog Warn ''Host Override not found'' st)) \<and>
    ((e = DeleteE x \<or> e = CreateE x \<or> e = UpdateE x y) \<and>
     RecordType x \<noteq> RecordTypeA \<and> RecordType x \<noteq> RecordTypeCNAME \<longrightarrow>
       ApplyChanges hc api c w = go_on api post (slog Warn ''unsupported record type'' st)) \<and>
    (e = UpdateE x y \<and> RecordType x = RecordTypeCNAME \<and>
     cnameRecordsByDNSName st (DNSName x) = None \<longrightarrow>
       ApplyChanges hc api c w =
         (Err ''host alias not found'', leave (slog Warn ''Host Alias not found'' st))) \<and>
    (e = UpdateE x y \<and> RecordType x = RecordTypeCNAME \<and>
     cnameRecordsByDNSName st (DNSName x) = Some haOld \<and> Targets y = t # ts \<and>
     aRecordsByDNSName st t = None \<longrightarrow>
       ApplyChanges hc api c w =
         (Err ''failed to update host alias: target host override not found'',
          leave (slog Warn ''Target Host Override not found for Host Alias'' st))) \<and>
    (e = CreateE x \<and> RecordType x = RecordTypeCNAME \<and> Targets x = t # ts \<and>
     aRecordsByDNSName st t = None \<longrightarrow>
       ApplyChanges hc api c w =
         (Err ''failed to create host alias: target host override not found'',
          leave (slog Warn ''Target Host Override not found for Host Alias'' st)))"
proof (intro conjI impI; (elim conjE)?)
  assume "e = DeleteE x" "RecordType x = RecordTypeA" "aRecordsByDNSName st (DNSName x) = None"
  then have "process_entry api e st = (Ok (), slog Warn ''Host Override not found'' st)"
    by (simp add: delete_step_def)
  from ApplyChanges_goes_on [where hc = hc, OF assms this]
  show "ApplyChanges hc api c w = go_on api post (slog Warn ''Host Override not found'' st)" .
next
  assume "e = DeleteE x" "RecordType x = RecordTypeCNAME"
    "cnameRecordsByDNSName st (DNSName x) = None"
  then have "process_entry api e st = (Ok (), slog Warn ''Host Alias not found'' st)"
    using kinds_differ by (simp add: delete_step_def)
  from ApplyChanges_goes_on [where hc = hc, OF assms this]
  show "ApplyChanges hc api c w = go_on api post (slog Warn ''Host Alias not found'' st)" .
next
  assume "e = UpdateE x y" "RecordType x = RecordTypeA" "aRecordsByDNSName st (DNSName x) = None"
  then have "process_entry api e st = (Ok (), slog Warn ''Host Override not found'' st)"
    by (simp add: update_step_def)
  from ApplyChanges_goes_on [where hc = hc, OF assms this]
  show "ApplyChanges hc api c w = go_on api post (slog Warn ''Host Override not found'' st)" .
next
  assume "e = DeleteE x \<or> e = CreateE x \<or> e = UpdateE x y"
    "RecordType x \<noteq> RecordTypeA" "RecordType x \<noteq> RecordTypeCNAME"
  then have "process_entry api e st = (Ok (), slog Warn ''unsupported record type'' st)"
    by (auto simp: delete_step_def create_step_def update_step_def)
  from ApplyChanges_goes_on [where hc = hc, OF assms this]
  show "ApplyChanges hc api c w = go_on api post (slog Warn ''unsupported record type'' st)" .
next
  assume "e = UpdateE x y" "RecordType x = RecordTypeCNAME"
    "cnameRecordsByDNSName st (DNSName x) = None"
  then have "process_entry api e st =
      (Err ''host alias not found'', slog Warn ''Host Alias not found'' st)"
    using kinds_differ by (simp add: update_step_def)
  from ApplyChanges_aborts [where hc = hc, OF assms this]
  show "ApplyChanges hc api c w =
         (Err ''host alias not found'', leave (slog Warn ''Host Alias not found'' st))" .
next
  assume "e = UpdateE x y" "RecordType x = RecordTypeCNAME"
    "cnameRecordsByDNSName st (DNSName x) = Some haOld" "Targets y = t # ts"
    "aRecordsByDNSName st t = None"
  then have "process_entry api e st =
      (Err ''failed to update host alias: target host override not found'',
       slog Warn ''Target Host Override not found for Host Alias'' st)"
    using kinds_differ by (simp add: update_step_def)
  from ApplyChanges_aborts [where hc = hc, OF assms this]
  show "ApplyChanges hc api c w =
         (Err ''failed to update host alias: target host override not found'',
          leave (slog Warn ''Target Host Override not found for Host Alias'' st))" .
next
  assume "e = CreateE x" "RecordType x = RecordTypeCNAME" "Targets x = t # ts"
    "aRecordsByDNSName st t = None"
  then have "process_entry api e st =
      (Err ''failed to create host alias: target host override not found'',
       slog Warn ''Target Host Override not found for Host Alias'' st)"
    by (simp add: create_step_alias_missing)
  from ApplyChanges_aborts [where hc = hc, OF assms this]
  show "ApplyChanges hc api c w =
         (Err ''failed to create host alias: target host override not found'',
          leave (slog Warn ''Target Host Override not found for Host Alias'' st))" .
qed


theorem lookup_miss_policy_witness:
  "HasChanges miss_batch \<and>
   length (UpdateOld miss_batch) \<le> length (UpdateNew miss_batch) \<and>
   build_tables fake (start fake_a) = (Ok (), tables_a) \<and>
   batch_entries miss_batch =
     [DeleteE (ep ''x.example.com'' ''A'' [''127.0.0.1'']),
      DeleteE (ep ''y.example.com'' ''CNAME'' [''a.example.com'']),
      DeleteE (ep ''t.example.com'' ''TXT'' [''hello'']),
      CreateE (ep ''t.example.com'' ''TXT'' [''hello'']),
      UpdateE (ep ''z.example.com'' ''A'' [''127.0.0.1'']) (ep ''z.example.com'' ''A'' [''127.0.0.2'']),
      UpdateE (ep ''t.example.com'' ''TXT'' [''hello'']) (ep ''t.example.com'' ''TXT'' [''bye'']),
      UpdateE (ep ''q.example.com'' ''CNAME'' [''a.example.com'']) (ep ''q.example.com'' ''CNAME'' [''a.example.com''])] \<and>
   ApplyChanges HasChanges fake miss_batch (start fake_a) =
     go_on fake
     [DeleteE (ep ''y.example.com'' ''CNAME'' [''a.example.com'']),
      DeleteE (ep ''t.example.com'' ''TXT'' [''hello'']),
      CreateE (ep ''t.example.com'' ''TXT'' [''hello'']),
      UpdateE (ep ''z.example.com'' ''A'' [''127.0.0.1'']) (ep ''z.example.com'' ''A'' [''127.0.0.2'']),
      UpdateE (ep ''t.example.com'' ''TXT'' [''hello'']) (ep ''t.example.com'' ''TXT'' [''bye'']),
      UpdateE (ep ''q.example.com'' ''CNAME'' [''a.example.com'']) (ep ''q.example.com'' ''CNAME'' [''a.example.com''])]
     (slog Warn ''Host Override not found'' (warned [])) \<and>
   ApplyChanges HasChanges fake miss_batch (start fake_a) =
     go_on fake
     [DeleteE (ep ''t.example.com'' ''TXT'' [''hello'']),
      CreateE (ep ''t.example.com'' ''TXT'' [''hello'']),
      UpdateE (ep ''z.example.com'' ''A'' [''127.0.0.1'']) (ep ''z.example.com'' ''A'' [''127.0.0.2'']),
      UpdateE (ep ''t.example.com'' ''TXT'' [''hello'']) (ep ''t.example.com'' ''TXT'' [''bye'']),
      UpdateE (ep ''q.example.com'' ''CNAME'' [''a.example.com'']) (ep ''q.example.com'' ''CNAME'' [''a.example.com''])]
     (slog Warn ''Host Alias not found'' (warned [''Host Override not found''])) \<and>
   ApplyChanges HasChanges fake miss_batch (start fake_a) =
     go_on fake
     [CreateE (ep ''t.example.com'' ''TXT'' [''hello'']),
      UpdateE (ep ''z.example.com'' ''A'' [''127.0.0.1'']) (ep ''z.example.com'' ''A'' [''127.0.0.2'']),
      UpdateE (ep ''t.example.com'' ''TXT'' [''hello'']) (ep ''t.example.com'' ''TXT'' [''bye'']),
      UpdateE (ep ''q.example.com'' ''CNAME'' [''a.example.com'']) (ep ''q.example.com'' ''CNAME'' [''a.example.com''])]
     (slog Warn ''unsupported record type'' (warned [''Host Override not found'', ''Host Alias not found''])) \<and>
   ApplyChanges HasChanges fake miss_batch (start fake_a) =
     go_on fake
     [UpdateE (ep ''z.example.com'' ''A'' [''127.0.0.1'']) (ep ''z.example.com'' ''A'' [''127.0.0.2'']),
      UpdateE (ep ''t.example.com'' ''TXT'' [''hello'']) (ep ''t.example.com'' ''TXT'' [''bye'']),
      UpdateE (ep ''q.example.com'' ''CNAME'' [''a.example.com'']) (ep ''q.example.com'' ''CNAME'' [''a.example.com''])]
     (slog Warn ''unsupported record type'' (warned [''Host Override not found'', ''Host Alias not found'', ''unsupported record type''])) \<and>
   ApplyChanges HasChanges fake miss_batch (start fake_a) =
     go_on fake
     [UpdateE (ep ''t.example.com'' ''TXT'' [''hello'']) (ep ''t.example.com'' ''TXT'' [''bye'']),
      UpdateE (ep ''q.example.com'' ''CNAME'' [''a.example.com'']) (ep ''q.example.com'' ''CNAME'' [''a.example.com''])]
     (slog Warn ''Host Override not found'' (warned [''Host Override not found'', ''Host Alias not found'', ''unsupported record type'', ''unsupported record type''])) \<and>
   ApplyChanges HasChanges fake miss_batch (start fake_a) =
     go_on fake
     [UpdateE (ep ''q.example.com'' ''CNAME'' [''a.example.com'']) (ep ''q.example.com'' ''CNAME'' [''a.example.com''])]
     (slog Warn ''unsupported record type'' (warned [''Host Override not found'', ''Host Alias not found'', ''unsupported record type'', ''unsupported record type'', ''Host Override not found''])) \<and>
   ApplyChanges HasChanges fake miss_batch (start fake_a) =
     (Err ''host alias not found'',
      \<lparr>backend = fake_a, calls = [ListHostOverridesC, ListHostAliasesC ''a''],
       logs = map (Pair Warn) [''Host Override not found'', ''Host Alias not found'', ''unsupported record type'', ''unsupported record type'', ''Host Override not found'', ''unsupported record type'', ''Host Alias not found'']\<rparr>) \<and>
   cnameRecordsByDNSName tables_a ''cname.example.com'' = Some ha_cname \<and>
   aRecordsByDNSName tables_a ''nope.example.com'' = None \<and>
   ApplyChanges HasChanges fake
     \<lparr>Create = [], Delete = [], UpdateOld = [ep ''cname.example.com'' ''CNAME'' [''a.example.com'']], UpdateNew = [ep ''cname.example.com'' ''CNAME'' [''nope.example.com'']]\<rparr> (start fake_a) =
     (Err ''failed to update host alias: target host override not found'',
      \<lparr>backend = fake_a, calls = [ListHostOverridesC, ListHostAliasesC ''a''],
       logs = [(Warn, ''Target Host Override not found for Host Alias'')]\<rparr>) \<and>
   ApplyChanges HasChanges fake
     \<lparr>Create = [ep ''www.example.com'' ''CNAME'' [''nope.example.com'']], Delete = [], UpdateOld = [], UpdateNew = []\<rparr> (start fake_a) =
     (Err ''failed to create host alias: target host override not found'',
      \<lparr>backend = fake_a, calls = [ListHostOverridesC, ListHostAliasesC ''a''],
       logs = [(Warn, ''Target Host Override not found for Host Alias'')]\<rparr>)"
proof -
  have hc: "HasChanges miss_batch" by (simp add: miss_batch_def HasChanges_def)
  have len: "length (UpdateOld miss_batch) \<le> length (UpdateNew miss_batch)"
    by (simp add: miss_batch_def)
  have es: "batch_entries miss_batch =
     [DeleteE (ep ''x.example.com'' ''A'' [''127.0.0.1'']),
      DeleteE (ep ''y.example.com'' ''CNAME'' [''a.example.com'']),
      DeleteE (ep ''t.example.com'' ''TXT'' [''hello'']),
      CreateE (ep ''t.example.com'' ''TXT'' [''hello'']),
      UpdateE (ep ''z.example.com'' ''A'' [''127.0.0.1'']) (ep ''z.example.com'' ''A'' [''127.0.0.2'']),
      UpdateE (ep ''t.example.com'' ''TXT'' [''hello'']) (ep ''t.example.com'' ''TXT'' [''bye'']),
      UpdateE (ep ''q.example.com'' ''CNAME'' [''a.example.com'']) (ep ''q.example.com'' ''CNAME'' [''a.example.com''])]"
    by (simp add: miss_batch_def batch_entries_def)
  have w0: "warned [] = tables_a" by (simp add: warned_def tables_a_eval)
  have kinds: "RecordType (ep n ''A'' ts) = RecordTypeA" "RecordType (ep n ''CNAME'' ts) = RecordTypeCNAME"
    "RecordType (ep n ''TXT'' ts) \<noteq> RecordTypeA" "RecordType (ep n ''TXT'' ts) \<noteq> RecordTypeCNAME" for n ts
    by (simp_all add: ep_def RecordTypeA_def RecordTypeCNAME_def)
  have tabs: "aRecordsByDNSName (warned ms) = [''a.example.com'' \<mapsto> ho_a]"
    "cnameRecordsByDNSName (warned ms) = [''cname.example.com'' \<mapsto> ha_cname]" for ms
    by (simp_all add: warned_def tables_a_eval)
  have step: "delete_step fake (ep n ''A'' ts) (warned ms) = (Ok (), warned (ms @ [''Host Override not found'']))"
    if "n \<noteq> ''a.example.com''" for n ts ms
    using that by (simp add: delete_step_def tabs ep_def RecordTypeA_def RecordTypeCNAME_def) (simp add: warned_def slog_def)
  have step2: "delete_step fake (ep n ''CNAME'' ts) (warned ms) = (Ok (), warned (ms @ [''Host Alias not found'']))"
    if "n \<noteq> ''cname.example.com''" for n ts ms
    using that by (simp add: delete_step_def tabs ep_def RecordTypeA_def RecordTypeCNAME_def) (simp add: warned_def slog_def)
  have step3: "delete_step fake (ep n ''TXT'' ts) (warned ms) = (Ok (), warned (ms @ [''unsupported record type'']))"
    "create_step fake (ep n ''TXT'' ts) (warned ms) = (Ok (), warned (ms @ [''unsupported record type'']))"
    "update_step fake (ep n ''TXT'' ts) y (warned ms) = (Ok (), warned (ms @ [''unsupported record type'']))" for n ts ms y
    by (simp_all add: delete_step_def create_step_def update_step_def ep_def RecordTypeA_def RecordTypeCNAME_def) (simp_all add: warned_def slog_def)
  have step4: "update_step fake (ep n ''A'' ts) y (warned ms) = (Ok (), warned (ms @ [''Host Override not found'']))"
    if "n \<noteq> ''a.example.com''" for n ts ms y
    using that by (simp add: update_step_def tabs ep_def RecordTypeA_def RecordTypeCNAME_def) (simp add: warned_def slog_def)
  note steps = step step2 step3 step4
  have be0: "batch_entries miss_batch =
     [] @
     DeleteE (ep ''x.example.com'' ''A'' [''127.0.0.1'']) #
     [DeleteE (ep ''y.example.com'' ''CNAME'' [''a.example.com'']),
      DeleteE (ep ''t.example.com'' ''TXT'' [''hello'']),
      CreateE (ep ''t.example.com'' ''TXT'' [''hello'']),
      UpdateE (ep ''z.example.com'' ''A'' [''127.0.0.1'']) (ep ''z.example.com'' ''A'' [''127.0.0.2'']),
      UpdateE (ep ''t.example.com'' ''TXT'' [''hello'']) (ep ''t.example.com'' ''TXT'' [''bye'']),
      UpdateE (ep ''q.example.com'' ''CNAME'' [''a.example.com'']) (ep ''q.example.com'' ''CNAME'' [''a.example.com''])]"
    by (simp add: es)
  have pre0: "for_each (process_entry fake) [] tables_a = (Ok (), warned [])"
    by (simp add: w0)
  have hyp0: "DeleteE (ep ''x.example.com'' ''A'' [''127.0.0.1'']) = DeleteE (ep ''x.example.com'' ''A'' [''127.0.0.1'']) \<and> RecordType (ep ''x.example.com'' ''A'' [''127.0.0.1'']) = RecordTypeA \<and> aRecordsByDNSName (warned []) (DNSName (ep ''x.example.com'' ''A'' [''127.0.0.1''])) = None"
    by (simp add: kinds tabs, (simp add: ep_def)?)
  note R0 = lookup_miss_policy [where hc = HasChanges and x = "ep ''x.example.com'' ''A'' [''127.0.0.1'']" and y = "ep ''x.example.com'' ''A'' [''127.0.0.1'']",
      OF hc len build_tables_a be0 pre0, THEN conjunct1, THEN mp, OF hyp0]
  have be1: "batch_entries miss_batch =
     [DeleteE (ep ''x.example.com'' ''A'' [''127.0.0.1''])] @
     DeleteE (ep ''y.example.com'' ''CNAME'' [''a.example.com'']) #
     [DeleteE (ep ''t.example.com'' ''TXT'' [''hello'']),
      CreateE (ep ''t.example.com'' ''TXT'' [''hello'']),
      UpdateE (ep ''z.example.com'' ''A'' [''127.0.0.1'']) (ep ''z.example.com'' ''A'' [''127.0.0.2'']),
      UpdateE (ep ''t.example.com'' ''TXT'' [''hello'']) (ep ''t.example.com'' ''TXT'' [''bye'']),
      UpdateE (ep ''q.example.com'' ''CNAME'' [''a.example.com'']) (ep ''q.example.com'' ''CNAME'' [''a.example.com''])]"
    by (simp add: es)
  have pre1: "for_each (process_entry fake)
     [DeleteE (ep ''x.example.com'' ''A'' [''127.0.0.1''])] tables_a = (Ok (), warned [''Host Override not found''])"
    unfolding w0 [symmetric] by (simp add: steps)
  have hyp1: "DeleteE (ep ''y.example.com'' ''CNAME'' [''a.example.com'']) = DeleteE (ep ''y.example.com'' ''CNAME'' [''a.example.com'']) \<and> RecordType (ep ''y.example.com'' ''CNAME'' [''a.example.com'']) = RecordTypeCNAME \<and> cnameRecordsByDNSName (warned [''Host Override not found'']) (DNSName (ep ''y.example.com'' ''CNAME'' [''a.example.com''])) = None"
    by (simp add: kinds tabs, (simp add: ep_def)?)
  note R1 = lookup_miss_policy [where hc = HasChanges and x = "ep ''y.example.com'' ''CNAME'' [''a.example.com'']" and y = "ep ''y.example.com'' ''CNAME'' [''a.example.com'']",
      OF hc len build_tables_a be1 pre1, THEN conjunct2, THEN conjunct1, THEN mp, OF hyp1]
  have be2: "batch_entries miss_batch =
     [DeleteE (ep ''x.example.com'' ''A'' [''127.0.0.1'']),
      DeleteE (ep ''y.example.com'' ''CNAME'' [''a.example.com''])] @
     DeleteE (ep ''t.example.com'' ''TXT'' [''hello'']) #
     [CreateE (ep ''t.example.com'' ''TXT'' [''hello'']),
      UpdateE (ep ''z.example.com'' ''A'' [''127.0.0.1'']) (ep ''z.example.com'' ''A'' [''127.0.0.2'']),
      UpdateE (ep ''t.example.com'' ''TXT'' [''hello'']) (ep ''t.example.com'' ''TXT'' [''bye'']),
      UpdateE (ep ''q.example.com'' ''CNAME'' [''a.example.com'']) (ep ''q.example.com'' ''CNAME'' [''a.example.com''])]"
    by (simp add: es)
  have pre2: "for_each (process_entry fake)
     [DeleteE (ep ''x.example.com'' ''A'' [''127.0.0.1'']),
      DeleteE (ep ''y.example.com'' ''CNAME'' [''a.example.com''])] tables_a = (Ok (), warned [''Host Override not found'', ''Host Alias not found''])"
    unfolding w0 [symmetric] by (simp add: steps)
  have hyp2: "(DeleteE (ep ''t.example.com'' ''TXT'' [''hello'']) = DeleteE (ep ''t.example.com'' ''TXT'' [''hello'']) \<or> DeleteE (ep ''t.example.com'' ''TXT'' [''hello'']) = CreateE (ep ''t.example.com'' ''TXT'' [''hello'']) \<or> DeleteE (ep ''t.example.com'' ''TXT'' [''hello'']) = UpdateE (ep ''t.example.com'' ''TXT'' [''hello'']) (ep ''t.example.com'' ''TXT'' [''hello''])) \<and> RecordType (ep ''t.example.com'' ''TXT'' [''hello'']) \<noteq> RecordTypeA \<and> RecordType (ep ''t.example.com'' ''TXT'' [''hello'']) \<noteq> RecordTypeCNAME"
    by (simp add: kinds tabs, (simp add: ep_def)?)
  note R2 = lookup_miss_policy [where hc = HasChanges and x = "ep ''t.example.com'' ''TXT'' [''hello'']" and y = "ep ''t.example.com'' ''TXT'' [''hello'']",
      OF hc len build_tables_a be2 pre2, THEN conjunct2, THEN conjunct2, THEN conjunct2, THEN conjunct1, THEN mp, OF hyp2]
  have be3: "batch_entries miss_batch =
     [DeleteE (ep ''x.example.com'' ''A'' [''127.0.0.1'']),
      DeleteE (ep ''y.example.com'' ''CNAME'' [''a.example.com'']),
      DeleteE (ep ''t.example.com'' ''TXT'' [''hello''])] @
     CreateE (ep ''t.example.com'' ''TXT'' [''hello'']) #
     [UpdateE (ep ''z.example.com'' ''A'' [''127.0.0.1'']) (ep ''z.example.com'' ''A'' [''127.0.0.2'']),
      UpdateE (ep ''t.example.com'' ''TXT'' [''hello'']) (ep ''t.example.com'' ''TXT'' [''bye'']),
      UpdateE (ep ''q.example.com'' ''CNAME'' [''a.example.com'']) (ep ''q.example.com'' ''CNAME'' [''a.example.com''])]"
    by (simp add: es)
  have pre3: "for_each (process_entry fake)
     [DeleteE (ep ''x.example.com'' ''A'' [''127.0.0.1'']),
      DeleteE (ep ''y.example.com'' ''CNAME'' [''a.example.com'']),
      DeleteE (ep ''t.example.com'' ''TXT'' [''hello''])] tables_a = (Ok (), warned [''Host Override not found'', ''Host Alias not found'', ''unsupported record type''])"
    unfolding w0 [symmetric] by (simp add: steps)
  have hyp3: "(CreateE (ep ''t.example.com'' ''TXT'' [''hello'']) = DeleteE (ep ''t.example.com'' ''TXT'' [''hello'']) \<or> CreateE (ep ''t.example.com'' ''TXT'' [''hello'']) = CreateE (ep ''t.example.com'' ''TXT'' [''hello'']) \<or> CreateE (ep ''t.example.com'' ''TXT'' [''hello'']) = UpdateE (ep ''t.example.com'' ''TXT'' [''hello'']) (ep ''t.example.com'' ''TXT'' [''hello''])) \<and> RecordType (ep ''t.example.com'' ''TXT'' [''hello'']) \<noteq> RecordTypeA \<and> RecordType (ep ''t.example.com'' ''TXT'' [''hello'']) \<noteq> RecordTypeCNAME"
    by (simp add: kinds tabs, (simp add: ep_def)?)
  note R3 = lookup_miss_policy [where hc = HasChanges and x = "ep ''t.example.com'' ''TXT'' [''hello'']" and y = "ep ''t.example.com'' ''TXT'' [''hello'']",
      OF hc len build_tables_a be3 pre3, THEN conjunct2, THEN conjunct2, THEN conjunct2, THEN conjunct1, THEN mp, OF hyp3]
  have be4: "batch_entries miss_batch =
     [DeleteE (ep ''x.example.com'' ''A'' [''127.0.0.1'']),
      DeleteE (ep ''y.example.com'' ''CNAME'' [''a.example.com'']),
      DeleteE (ep ''t.example.com'' ''TXT'' [''hello'']),
      CreateE (ep ''t.example.com'' ''TXT'' [''hello''])] @
     UpdateE (ep ''z.example.com'' ''A'' [''127.0.0.1'']) (ep ''z.example.com'' ''A'' [''127.0.0.2'']) #
     [UpdateE (ep ''t.example.com'' ''TXT'' [''hello'']) (ep ''t.example.com'' ''TXT'' [''bye'']),
      UpdateE (ep ''q.example.com'' ''CNAME'' [''a.example.com'']) (ep ''q.example.com'' ''CNAME'' [''a.example.com''])]"
    by (simp add: es)
  have pre4: "for_each (process_entry fake)
     [DeleteE (ep ''x.example.com'' ''A'' [''127.0.0.1'']),
      DeleteE (ep ''y.example.com'' ''CNAME'' [''a.example.com'']),
      DeleteE (ep ''t.example.com'' ''TXT'' [''hello'']),
      CreateE (ep ''t.example.com'' ''TXT'' [''hello''])] tables_a = (Ok (), warned [''Host Override not found'', ''Host Alias not found'', ''unsupported record type'', ''unsupported record type''])"
    unfolding w0 [symmetric] by (simp add: steps)
  have hyp4: "UpdateE (ep ''z.example.com'' ''A'' [''127.0.0.1'']) (ep ''z.example.com'' ''A'' [''127.0.0.2'']) = UpdateE (ep ''z.example.com'' ''A'' [''127.0.0.1'']) (ep ''z.example.com'' ''A'' [''127.0.0.2'']) \<and> RecordType (ep ''z.example.com'' ''A'' [''127.0.0.1'']) = RecordTypeA \<and> aRecordsByDNSName (warned [''Host Override not found'', ''Host Alias not found'', ''unsupported record type'', ''unsupported record type'']) (DNSName (ep ''z.example.com'' ''A'' [''127.0.0.1''])) = None"
    by (simp add: kinds tabs, (simp add: ep_def)?)
  note R4 = lookup_miss_policy [where hc = HasChanges and x = "ep ''z.example.com'' ''A'' [''127.0.0.1'']" and y = "ep ''z.example.com'' ''A'' [''127.0.0.2'']",
      OF hc len build_tables_a be4 pre4, THEN conjunct2, THEN conjunct2, THEN conjunct1, THEN mp, OF hyp4]
  have be5: "batch_entries miss_batch =
     [DeleteE (ep ''x.example.com'' ''A'' [''127.0.0.1'']),
      DeleteE (ep ''y.example.com'' ''CNAME'' [''a.example.com'']),
      DeleteE (ep ''t.example.com'' ''TXT'' [''hello'']),
      CreateE (ep ''t.example.com'' ''TXT'' [''hello'']),
      UpdateE (ep ''z.example.com'' ''A'' [''127.0.0.1'']) (ep ''z.example.com'' ''A'' [''127.0.0.2''])] @
     UpdateE (ep ''t.example.com'' ''TXT'' [''hello'']) (ep ''t.example.com'' ''TXT'' [''bye'']) #
     [UpdateE (ep ''q.example.com'' ''CNAME'' [''a.example.com'']) (ep ''q.example.com'' ''CNAME'' [''a.example.com''])]"
    by (simp add: es)
  have pre5: "for_each (process_entry fake)
     [DeleteE (ep ''x.example.com'' ''A'' [''127.0.0.1'']),
      DeleteE (ep ''y.example.com'' ''CNAME'' [''a.example.com'']),
      DeleteE (ep ''t.example.com'' ''TXT'' [''hello'']),
      CreateE (ep ''t.example.com'' ''TXT'' [''hello'']),
      UpdateE (ep ''z.example.com'' ''A'' [''127.0.0.1'']) (ep ''z.example.com'' ''A'' [''127.0.0.2''])] tables_a = (Ok (), warned [''Host Override not found'', ''Host Alias not found'', ''unsupported record type'', ''unsupported record type'', ''Host Override not found''])"
    unfolding w0 [symmetric] by (simp add: steps)
  have hyp5: "(UpdateE (ep ''t.example.com'' ''TXT'' [''hello'']) (ep ''t.example.com'' ''TXT'' [''bye'']) = DeleteE (ep ''t.example.com'' ''TXT'' [''hello'']) \<or> UpdateE (ep ''t.example.com'' ''TXT'' [''hello'']) (ep ''t.example.com'' ''TXT'' [''bye'']) = CreateE (ep ''t.example.com'' ''TXT'' [''hello'']) \<or> UpdateE (ep ''t.example.com'' ''TXT'' [''hello'']) (ep ''t.example.com'' ''TXT'' [''bye'']) = UpdateE (ep ''t.example.com'' ''TXT'' [''hello'']) (ep ''t.example.com'' ''TXT'' [''bye''])) \<and> RecordType (ep ''t.example.com'' ''TXT'' [''hello'']) \<noteq> RecordTypeA \<and> RecordType (ep ''t.example.com'' ''TXT'' [''hello'']) \<noteq> RecordTypeCNAME"
    by (simp add: kinds tabs, (simp add: ep_def)?)
  note R5 = lookup_miss_policy [where hc = HasChanges and x = "ep ''t.example.com'' ''TXT'' [''hello'']" and y = "ep ''t.example.com'' ''TXT'' [''bye'']",
      OF hc len build_tables_a be5 pre5, THEN conjunct2, THEN conjunct2, THEN conjunct2, THEN conjunct1, THEN mp, OF hyp5]
  have be6: "batch_entries miss_batch =
     [DeleteE (ep ''x.example.com'' ''A'' [''127.0.0.1'']),
      DeleteE (ep ''y.example.com'' ''CNAME'' [''a.example.com'']),
      DeleteE (ep ''t.example.com'' ''TXT'' [''hello'']),
      CreateE (ep ''t.example.com'' ''TXT'' [''hello'']),
      UpdateE (ep ''z.example.com'' ''A'' [''127.0.0.1'']) (ep ''z.example.com'' ''A'' [''127.0.0.2'']),
      UpdateE (ep ''t.example.com'' ''TXT'' [''hello'']) (ep ''t.example.com'' ''TXT'' [''bye''])] @
     UpdateE (ep ''q.example.com'' ''CNAME'' [''a.example.com'']) (ep ''q.example.com'' ''CNAME'' [''a.example.com'']) #
     []"
    by (simp add: es)
  have pre6: "for_each (process_entry fake)
     [DeleteE (ep ''x.example.com'' ''A'' [''127.0.0.1'']),
      DeleteE (ep ''y.example.com'' ''CNAME'' [''a.example.com'']),
      DeleteE (ep ''t.example.com'' ''TXT'' [''hello'']),
      CreateE (ep ''t.example.com'' ''TXT'' [''hello'']),
      UpdateE (ep ''z.example.com'' ''A'' [''127.0.0.1'']) (ep ''z.example.com'' ''A'' [''127.0.0.2'']),
      UpdateE (ep ''t.example.com'' ''TXT'' [''hello'']) (ep ''t.example.com'' ''TXT'' [''bye''])] tables_a = (Ok (), warned [''Host Override not found'', ''Host Alias not found'', ''unsupported record type'', ''unsupported record type'', ''Host Override not found'', ''unsupported record type''])"
    unfolding w0 [symmetric] by (simp add: steps)
  have hyp6: "UpdateE (ep ''q.example.com'' ''CNAME'' [''a.example.com'']) (ep ''q.example.com'' ''CNAME'' [''a.example.com'']) = UpdateE (ep ''q.example.com'' ''CNAME'' [''a.example.com'']) (ep ''q.example.com'' ''CNAME'' [''a.example.com'']) \<and> RecordType (ep ''q.example.com'' ''CNAME'' [''a.example.com'']) = RecordTypeCNAME \<and> cnameRecordsByDNSName (warned [''Host Override not found'', ''Host Alias not found'', ''unsupported record type'', ''unsupported record type'', ''Host Override not found'', ''unsupported record type'']) (DNSName (ep ''q.example.com'' ''CNAME'' [''a.example.com''])) = None"
    by (simp add: kinds tabs, (simp add: ep_def)?)
  note R6 = lookup_miss_policy [where hc = HasChanges and x = "ep ''q.example.com'' ''CNAME'' [''a.example.com'']" and y = "ep ''q.example.com'' ''CNAME'' [''a.example.com'']",
      OF hc len build_tables_a be6 pre6, THEN conjunct2, THEN conjunct2, THEN conjunct2, THEN conjunct2, THEN conjunct1, THEN mp, OF hyp6]
  have fin: "leave (slog Warn ''Host Alias not found'' (warned [''Host Override not found'', ''Host Alias not found'', ''unsupported record type'', ''unsupported record type'', ''Host Override not found'', ''unsupported record type''])) =
      \<lparr>backend = fake_a, calls = [ListHostOverridesC, ListHostAliasesC ''a''],
       logs = map (Pair Warn) [''Host Override not found'', ''Host Alias not found'', ''unsupported record type'', ''unsupported record type'', ''Host Override not found'', ''unsupported record type'', ''Host Alias not found'']\<rparr>"
    by (simp add: warned_def tables_a_eval leave_def slog_def)
  let ?b6 = "\<lparr>Create = [], Delete = [], UpdateOld = [ep ''cname.example.com'' ''CNAME'' [''a.example.com'']], UpdateNew = [ep ''cname.example.com'' ''CNAME'' [''nope.example.com'']]\<rparr>"
  let ?b7 = "\<lparr>Create = [ep ''www.example.com'' ''CNAME'' [''nope.example.com'']], Delete = [], UpdateOld = [], UpdateNew = []\<rparr>"
  have hc6: "HasChanges ?b6" and hc7: "HasChanges ?b7" by (simp_all add: HasChanges_def)
  have len6: "length (UpdateOld ?b6) \<le> length (UpdateNew ?b6)"
    and len7: "length (UpdateOld ?b7) \<le> length (UpdateNew ?b7)" by simp_all
  have be6': "batch_entries ?b6 = [] @ UpdateE (ep ''cname.example.com'' ''CNAME'' [''a.example.com'']) (ep ''cname.example.com'' ''CNAME'' [''nope.example.com'']) # []"
    by (simp add: batch_entries_def)
  have be7': "batch_entries ?b7 = [] @ CreateE (ep ''www.example.com'' ''CNAME'' [''nope.example.com'']) # []"
    by (simp add: batch_entries_def)
  have pre': "for_each (process_entry fake) [] tables_a = (Ok (), tables_a)" by simp
  have hit: "cnameRecordsByDNSName tables_a ''cname.example.com'' = Some ha_cname"
    and miss: "aRecordsByDNSName tables_a ''nope.example.com'' = None"
    by (simp_all add: tables_a_eval)
  have hyp6': "UpdateE (ep ''cname.example.com'' ''CNAME'' [''a.example.com'']) (ep ''cname.example.com'' ''CNAME'' [''nope.example.com'']) = UpdateE (ep ''cname.example.com'' ''CNAME'' [''a.example.com'']) (ep ''cname.example.com'' ''CNAME'' [''nope.example.com'']) \<and> RecordType (ep ''cname.example.com'' ''CNAME'' [''a.example.com'']) = RecordTypeCNAME \<and>
     cnameRecordsByDNSName tables_a (DNSName (ep ''cname.example.com'' ''CNAME'' [''a.example.com''])) = Some ha_cname \<and> Targets (ep ''cname.example.com'' ''CNAME'' [''nope.example.com'']) = ''nope.example.com'' # [] \<and>
     aRecordsByDNSName tables_a ''nope.example.com'' = None"
    using hit miss by (simp add: kinds, (simp add: ep_def)?)
  have hyp7': "CreateE (ep ''www.example.com'' ''CNAME'' [''nope.example.com'']) = CreateE (ep ''www.example.com'' ''CNAME'' [''nope.example.com'']) \<and> RecordType (ep ''www.example.com'' ''CNAME'' [''nope.example.com'']) = RecordTypeCNAME \<and> Targets (ep ''www.example.com'' ''CNAME'' [''nope.example.com'']) = ''nope.example.com'' # [] \<and>
     aRecordsByDNSName tables_a ''nope.example.com'' = None"
    using miss by (simp add: kinds, (simp add: ep_def)?)
  note S6 = lookup_miss_policy [where hc = HasChanges and x = "ep ''cname.example.com'' ''CNAME'' [''a.example.com'']" and y = "ep ''cname.example.com'' ''CNAME'' [''nope.example.com'']" and haOld = ha_cname
      and t = "''nope.example.com''" and ts = "[]",
      OF hc6 len6 build_tables_a be6' pre', THEN conjunct2, THEN conjunct2, THEN conjunct2, THEN conjunct2, THEN conjunct2, THEN conjunct1, THEN mp, OF hyp6']
  note S7 = lookup_miss_policy [where hc = HasChanges and x = "ep ''www.example.com'' ''CNAME'' [''nope.example.com'']" and t = "''nope.example.com''" and ts = "[]",
      OF hc7 len7 build_tables_a be7' pre', THEN conjunct2, THEN conjunct2, THEN conjunct2, THEN conjunct2, THEN conjunct2, THEN conjunct2, THEN mp, OF hyp7']
  have fin2: "leave (slog Warn ''Target Host Override not found for Host Alias'' tables_a) =
      \<lparr>backend = fake_a, calls = [ListHostOverridesC, ListHostAliasesC ''a''],
       logs = [(Warn, ''Target Host Override not found for Host Alias'')]\<rparr>"
    by (simp add: tables_a_eval leave_def slog_def)
  show ?thesis
    using hc len build_tables_a es R0 R1 R2 R3 R4 R5 R6 [unfolded fin] hit miss
      S6 [unfolded fin2] S7 [unfolded fin2]
    by (intro conjI)
qed

section \<open>ApplyChanges: reading what the batch wrote\<close>




















section \<open>ApplyChanges: panics\<close>

lemma ho_Update_None_dot:
  "ho_Update r x = None \<longleftrightarrow> CHR ''.'' \<notin> set (DNSName x) \<or> Targets x = []"
  by (simp add: ho_Update_None cut_dot_None)

lemma ha_Update_None_dot:
  "ha_Update r x = None \<longleftrightarrow> CHR ''.'' \<notin> set (DNSName x) \<or> Targets x = []"
  by (simp add: ha_Update_None cut_dot_None)

lemma delete_step_no_panic: "fst (delete_step api x st) \<noteq> Panic"
  by (auto simp: delete_step_def split: option.splits prod.splits)

lemma create_step_Address_panic:
  assumes "RecordType x = RecordTypeA"
  shows "fst (create_step api x st) = Panic \<longleftrightarrow> ho_Update HostOverride_zero x = None"
  using assms by (auto simp: create_step_def split: option.splits prod.splits sum.splits)

lemma create_step_CanonicalName_panic:
  assumes "RecordType x = RecordTypeCNAME"
  shows "fst (create_step api x st) = Panic \<longleftrightarrow>
     Targets x = [] \<or>
     (\<exists>t ts ho. Targets x = t # ts \<and> aRecordsByDNSName st t = Some ho \<and>
        ha_Update (HostAlias_for (ho_ID ho)) x = None)"
proof -
  have k: "RecordType x \<noteq> RecordTypeA" using assms kinds_differ by simp
  show ?thesis
  proof (cases "Targets x")
    case Nil
    with assms k show ?thesis by (simp add: create_step_def)
  next
    case (Cons t ts)
    show ?thesis
    proof (cases "aRecordsByDNSName st t")
      case None
      with Cons assms k show ?thesis by (simp add: create_step_def)
    next
      case (Some ho)
      with Cons assms k show ?thesis
        by (auto simp: create_step_def split: option.splits prod.splits sum.splits)
    qed
  qed
qed

lemma create_step_other_no_panic:
  assumes "RecordType x \<noteq> RecordTypeA" and "RecordType x \<noteq> RecordTypeCNAME"
  shows "fst (create_step api x st) \<noteq> Panic"
  using assms by (simp add: create_step_def)

lemma create_step_Panic_iff:
  "fst (create_step api x st) = Panic \<longleftrightarrow>
     (RecordType x = RecordTypeA \<and> (CHR ''.'' \<notin> set (DNSName x) \<or> Targets x = [])) \<or>
     (RecordType x = RecordTypeCNAME \<and>
      (Targets x = [] \<or>
       (\<exists>t ts ho. Targets x = t # ts \<and> aRecordsByDNSName st t = Some ho \<and>
          CHR ''.'' \<notin> set (DNSName x))))"
proof (cases "RecordType x = RecordTypeA")
  case True
  with kinds_differ have "RecordType x \<noteq> RecordTypeCNAME" by simp
  with True create_step_Address_panic [OF True, of api st] show ?thesis
    by (simp add: ho_Update_None_dot)
next
  case nA: False
  show ?thesis
  proof (cases "RecordType x = RecordTypeCNAME")
    case True
    with nA create_step_CanonicalName_panic [OF True, of api st] show ?thesis
      by (auto simp: ha_Update_None_dot)
  next
    case False
    with nA create_step_other_no_panic [OF nA False, of api st] show ?thesis by simp
  qed
qed

lemma update_step_Address_panic:
  assumes "RecordType x = RecordTypeA"
  shows "fst (update_step api x y st) = Panic \<longleftrightarrow>
     (\<exists>ho. aRecordsByDNSName st (DNSName x) = Some ho \<and> ho_Update ho y = None)"
  using assms by (auto simp: update_step_def split: option.splits prod.splits)

lemma update_step_CanonicalName_panic:
  assumes "RecordType x = RecordTypeCNAME"
  shows "fst (update_step api x y st) = Panic \<longleftrightarrow>
     (\<exists>haOld. cnameRecordsByDNSName st (DNSName x) = Some haOld \<and>
        (Targets y = [] \<or>
         (\<exists>t ts ho. Targets y = t # ts \<and> aRecordsByDNSName st t = Some ho \<and>
            ha_Update haOld y = None)))"
proof -
  have k: "RecordType x \<noteq> RecordTypeA" using assms kinds_differ by simp
  show ?thesis
  proof (cases "cnameRecordsByDNSName st (DNSName x)")
    case None
    with assms k show ?thesis by (simp add: update_step_def)
  next
    case (Some haOld)
    show ?thesis
    proof (cases "Targets y")
      case Nil
      with Some assms k show ?thesis by (simp add: update_step_def)
    next
      case (Cons t ts)
      show ?thesis
      proof (cases "aRecordsByDNSName st t")
        case None
        with Cons Some assms k show ?thesis by (simp add: update_step_def)
      next
        case ho: (Some ho)
        with Cons Some assms k show ?thesis
          by (auto simp: update_step_def Let_def split: option.splits prod.splits)
      qed
    qed
  qed
qed

lemma update_step_Panic_iff:
  "fst (update_step api x y st) = Panic \<longleftrightarrow>
     (RecordType x = RecordTypeA \<and> aRecordsByDNSName st (DNSName x) \<noteq> None \<and>
      (CHR ''.'' \<notin> set (DNSName y) \<or> Targets y = [])) \<or>
     (RecordType x = RecordTypeCNAME \<and> cnameRecordsByDNSName st (DNSName x) \<noteq> None \<and>
      (Targets y = [] \<or>
       (\<exists>t ts ho. Targets y = t # ts \<and> aRecordsByDNSName st t = Some ho \<and>
          CHR ''.'' \<notin> set (DNSName y))))"
proof (cases "RecordType x = RecordTypeA")
  case True
  with kinds_differ have "RecordType x \<noteq> RecordTypeCNAME" by simp
  with True update_step_Address_panic [OF True, of api y st] show ?thesis
    by (auto simp: ho_Update_None_dot)
next
  case nA: False
  show ?thesis
  proof (cases "RecordType x = RecordTypeCNAME")
    case True
    with nA update_step_CanonicalName_panic [OF True, of api y st] show ?thesis
      by (auto simp: ha_Update_None_dot)
  next
    case False
    with nA show ?thesis by (simp add: update_step_def)
  qed
qed

text \<open>An entry whose endpoint can be indexed wherever its loop body indexes it.\<close>

lemma process_entry_no_panic:
  assumes "case e of DeleteE x \<Rightarrow> True
           | CreateE x \<Rightarrow> RecordType x = RecordTypeA \<or> RecordType x = RecordTypeCNAME \<longrightarrow> usable x
           | UpdateE x y \<Rightarrow> usable y"
  shows "fst (process_entry api e st) \<noteq> Panic"
proof (cases e)
  case (DeleteE x)
  then show ?thesis by (simp add: delete_step_no_panic)
next
  case (CreateE x)
  with assms show ?thesis
    by (auto simp: create_step_Panic_iff usable_def)
next
  case (UpdateE x y)
  with assms show ?thesis
    by (auto simp: update_step_Panic_iff usable_def)
qed

lemma for_each_no_panic:
  assumes "\<And>x st. x \<in> set xs \<Longrightarrow> fst (body x st) \<noteq> Panic"
  shows "fst (for_each body xs st) \<noteq> Panic"
  using assms
proof (induction xs arbitrary: st)
  case Nil
  then show ?case by simp
next
  case (Cons x xs)
  obtain r st' where step: "body x st = (r, st')" by (cases "body x st")
  from Cons.prems [of x st] step have r: "r \<noteq> Panic" by simp
  show ?case
  proof (cases r)
    case (Ok u)
    from Cons.IH [of st'] Cons.prems have "fst (for_each body xs st') \<noteq> Panic" by simp
    with Ok step show ?thesis by simp
  next
    case (Err m)
    with step show ?thesis by simp
  next
    case Panic
    with r show ?thesis by simp
  qed
qed

lemma build_tables_no_panic: "fst (build_tables api w) \<noteq> Panic"
proof (cases "ListHostOverrides api (backend w)")
  case (Pair r b)
  show ?thesis
  proof (cases r)
    case (Inl err)
    with Pair show ?thesis by (simp add: build_tables_def)
  next
    case (Inr hos)
    have "fst (list_aliases_step api ho st) \<noteq> Panic" for ho st
      by (auto simp: list_aliases_step_def split: prod.splits sum.splits)
    from for_each_no_panic [of hos "list_aliases_step api", OF this] Pair Inr
    show ?thesis by (simp add: build_tables_def)
  qed
qed

lemma ApplyChanges_no_panic:
  assumes "\<forall>x\<in>set (Create c). RecordType x = RecordTypeA \<or> RecordType x = RecordTypeCNAME \<longrightarrow> usable x"
    and "\<forall>y\<in>set (UpdateNew c). usable y"
    and "length (UpdateOld c) \<le> length (UpdateNew c)"
  shows "fst (ApplyChanges hc api c w) \<noteq> Panic"
proof (cases "hc c")
  case False
  then show ?thesis by (simp add: ApplyChanges_def)
next
  case True
  obtain r st where b: "build_tables api w = (r, st)" by (cases "build_tables api w")
  from build_tables_no_panic [of api w] b have r: "r \<noteq> Panic" by simp
  show ?thesis
  proof (cases r)
    case (Ok u)
    have safe: "fst (process_entry api e st') \<noteq> Panic" if "e \<in> set (batch_entries c)" for e st'
    proof (rule process_entry_no_panic)
      from that assms(1,2) show "case e of DeleteE x \<Rightarrow> True
           | CreateE x \<Rightarrow> RecordType x = RecordTypeA \<or> RecordType x = RecordTypeCNAME \<longrightarrow> usable x
           | UpdateE x y \<Rightarrow> usable y"
        by (auto simp: batch_entries_def dest: set_zip_rightD)
    qed
    from for_each_no_panic [of "batch_entries c" "process_entry api" st, OF safe]
    have "fst (for_each (process_entry api) (batch_entries c) st) \<noteq> Panic" by simp
    with True b Ok show ?thesis
      by (simp add: ApplyChanges_def apply_phases_entries [OF assms(3)] case_prod_unfold)
  next
    case (Err m)
    with True b show ?thesis by (simp add: ApplyChanges_def)
  next
    case Panic
    with r show ?thesis by simp
  qed
qed


lemma ApplyChanges_panics_at_entry:
  assumes "hc c" and "length (UpdateOld c) \<le> length (UpdateNew c)"
    and "build_tables api w = (Ok (), stB)"
    and "batch_entries c = pre @ e # post"
    and "for_each (process_entry api) pre stB = (Ok (), st)"
    and "fst (process_entry api e st) = Panic"
  shows "fst (ApplyChanges hc api c w) = Panic"
proof -
  obtain st' where "process_entry api e st = (Panic, st')"
    using assms(6) by (cases "process_entry api e st") simp
  with ApplyChanges_at_entry [where hc = hc, OF assms(1-5)] show ?thesis by simp
qed

text \<open>
  C10: \<open>ApplyChanges\<close> does not panic on a batch in which every Create endpoint of
  Address or CanonicalName kind and every UpdateNew endpoint has a dot in its name and a
  target, and \<open>UpdateNew\<close> is at least as long as \<open>UpdateOld\<close>. It does panic when it
  reaches (the tables are built and the entries before went through) a Create entry of Address
  kind with no dot in the name or no target, a Create entry of CanonicalName kind with no
  target, or with a target found in the address table and no dot in the name, and likewise an
  update pair whose old endpoint is found and whose new endpoint has no target or no dot.
\<close>

theorem ApplyChanges_panics:
  "((\<forall>x\<in>set (Create c). RecordType x = RecordTypeA \<or> RecordType x = RecordTypeCNAME \<longrightarrow> usable x) \<and>
    (\<forall>y\<in>set (UpdateNew c). usable y) \<and> length (UpdateOld c) \<le> length (UpdateNew c) \<longrightarrow>
      fst (ApplyChanges hc api c w) \<noteq> Panic) \<and>
   (hc c \<and> length (UpdateOld c) \<le> length (UpdateNew c) \<and>
    build_tables api w = (Ok (), stB) \<and> batch_entries c = pre @ e # post \<and>
    for_each (process_entry api) pre stB = (Ok (), st) \<longrightarrow>
      (e = CreateE x \<and>
       (RecordType x = RecordTypeA \<and> (CHR ''.'' \<notin> set (DNSName x) \<or> Targets x = []) \<or>
        RecordType x = RecordTypeCNAME \<and>
        (Targets x = [] \<or>
         (\<exists>t ts ho. Targets x = t # ts \<and> aRecordsByDNSName st t = Some ho \<and>
            CHR ''.'' \<notin> set (DNSName x)))) \<longrightarrow>
         fst (ApplyChanges hc api c w) = Panic) \<and>
      (e = UpdateE x y \<and>
       (RecordType x = RecordTypeA \<and> aRecordsByDNSName st (DNSName x) \<noteq> None \<and>
        (CHR ''.'' \<notin> set (DNSName y) \<or> Targets y = []) \<or>
        RecordType x = RecordTypeCNAME \<and> cnameRecordsByDNSName st (DNSName x) \<noteq> None \<and>
        (Targets y = [] \<or>
         (\<exists>t ts ho. Targets y = t # ts \<and> aRecordsByDNSName st t = Some ho \<and>
            CHR ''.'' \<notin> set (DNSName y)))) \<longrightarrow>
         fst (ApplyChanges hc api c w) = Panic))"
proof (intro conjI impI; (elim conjE)?)
  assume "\<forall>x\<in>set (Create c). RecordType x = RecordTypeA \<or> RecordType x = RecordTypeCNAME \<longrightarrow> usable x"
    "\<forall>y\<in>set (UpdateNew c). usable y" "length (UpdateOld c) \<le> length (UpdateNew c)"
  then show "fst (ApplyChanges hc api c w) \<noteq> Panic"
    by (rule ApplyChanges_no_panic)
next
  assume r: "hc c" "length (UpdateOld c) \<le> length (UpdateNew c)"
    "build_tables api w = (Ok (), stB)" "batch_entries c = pre @ e # post"
    "for_each (process_entry api) pre stB = (Ok (), st)"
  assume "e = CreateE x"
    and "RecordType x = RecordTypeA \<and> (CHR ''.'' \<notin> set (DNSName x) \<or> Targets x = []) \<or>
        RecordType x = RecordTypeCNAME \<and>
        (Targets x = [] \<or>
         (\<exists>t ts ho. Targets x = t # ts \<and> aRecordsByDNSName st t = Some ho \<and>
            CHR ''.'' \<notin> set (DNSName x)))"
  then have "fst (process_entry api e st) = Panic"
    by (simp only: process_entry.simps create_step_Panic_iff)
  from ApplyChanges_panics_at_entry [where hc = hc, OF r this]
  show "fst (ApplyChanges hc api c w) = Panic" .
next
  assume r: "hc c" "length (UpdateOld c) \<le> length (UpdateNew c)"
    "build_tables api w = (Ok (), stB)" "batch_entries c = pre @ e # post"
    "for_each (process_entry api) pre stB = (Ok (), st)"
  assume "e = UpdateE x y"
    and "RecordType x = RecordTypeA \<and> aRecordsByDNSName st (DNSName x) \<noteq> None \<and>
        (CHR ''.'' \<notin> set (DNSName y) \<or> Targets y = []) \<or>
        RecordType x = RecordTypeCNAME \<and> cnameRecordsByDNSName st (DNSName x) \<noteq> None \<and>
        (Targets y = [] \<or>
         (\<exists>t ts ho. Targets y = t # ts \<and> aRecordsByDNSName st t = Some ho \<and>
            CHR ''.'' \<notin> set (DNSName y)))"
  then have "fst (process_entry api e st) = Panic"
    by (simp only: process_entry.simps update_step_Panic_iff)
  from ApplyChanges_panics_at_entry [where hc = hc, OF r this]
  show "fst (ApplyChanges hc api c w) = Panic" .
qed

theorem ApplyChanges_panics_witness:
  "list_all usable (Create mixed_batch) \<and> list_all usable (UpdateNew mixed_batch) \<and>
   length (UpdateOld mixed_batch) \<le> length (UpdateNew mixed_batch) \<and>
   fst (ApplyChanges HasChanges fake mixed_batch (start fake_a)) \<noteq> Panic \<and>
   HasChanges alias_without_target \<and>
   build_tables fake (start fake_a) = (Ok (), tables_a) \<and>
   batch_entries alias_without_target = [] @ CreateE (ep ''www.example.com'' ''CNAME'' []) # [] \<and>
   RecordType (ep ''www.example.com'' ''CNAME'' []) = RecordTypeCNAME \<and>
   Targets (ep ''www.example.com'' ''CNAME'' []) = [] \<and>
   fst (ApplyChanges HasChanges fake alias_without_target (start fake_a)) = Panic \<and>
   HasChanges name_without_dot \<and>
   batch_entries name_without_dot = [] @ CreateE (ep ''localhost'' ''A'' [''127.0.0.1'']) # [] \<and>
   RecordType (ep ''localhost'' ''A'' [''127.0.0.1'']) = RecordTypeA \<and>
   CHR ''.'' \<notin> set (DNSName (ep ''localhost'' ''A'' [''127.0.0.1''])) \<and>
   fst (ApplyChanges HasChanges fake name_without_dot (start fake_a)) = Panic \<and>
   HasChanges update_without_target \<and>
   batch_entries update_without_target =
     [] @ UpdateE (ep ''a.example.com'' ''A'' [''127.0.0.1'']) (ep ''a.example.com'' ''A'' []) # [] \<and>
   aRecordsByDNSName tables_a ''a.example.com'' = Some ho_a \<and>
   Targets (ep ''a.example.com'' ''A'' []) = [] \<and>
   fst (ApplyChanges HasChanges fake update_without_target (start fake_a)) = Panic"
proof -
  have u1: "list_all usable (Create mixed_batch)" "list_all usable (UpdateNew mixed_batch)"
    by (simp_all add: mixed_batch_def usable_def ep_def)
  have l1: "length (UpdateOld mixed_batch) \<le> length (UpdateNew mixed_batch)"
    by (simp add: mixed_batch_def)
  have h1: "(\<forall>x\<in>set (Create mixed_batch).
        RecordType x = RecordTypeA \<or> RecordType x = RecordTypeCNAME \<longrightarrow> usable x) \<and>
    (\<forall>y\<in>set (UpdateNew mixed_batch). usable y) \<and>
    length (UpdateOld mixed_batch) \<le> length (UpdateNew mixed_batch)"
    using u1 l1 by (simp add: list_all_iff)
  note A = ApplyChanges_panics [where hc = HasChanges and c = mixed_batch and api = fake and w = "start fake_a",
      THEN conjunct1, THEN mp, OF h1]
  let ?x = "ep ''www.example.com'' ''CNAME'' []"
  let ?z = "ep ''localhost'' ''A'' [''127.0.0.1'']"
  let ?o = "ep ''a.example.com'' ''A'' [''127.0.0.1'']"
  let ?n = "ep ''a.example.com'' ''A'' []"
  have hc: "HasChanges alias_without_target" "HasChanges name_without_dot"
    "HasChanges update_without_target"
    by (simp_all add: alias_without_target_def name_without_dot_def update_without_target_def
        HasChanges_def)
  have be: "batch_entries alias_without_target = [] @ CreateE ?x # []"
    "batch_entries name_without_dot = [] @ CreateE ?z # []"
    "batch_entries update_without_target = [] @ UpdateE ?o ?n # []"
    by (simp_all add: alias_without_target_def name_without_dot_def update_without_target_def
        batch_entries_def)
  have ko: "RecordType ?o = RecordTypeA" "Targets ?n = []"
    "aRecordsByDNSName tables_a ''a.example.com'' = Some ho_a"
    by (simp_all add: ep_def RecordTypeA_def tables_a_eval)
  have r4: "HasChanges update_without_target \<and>
    length (UpdateOld update_without_target) \<le> length (UpdateNew update_without_target) \<and>
    build_tables fake (start fake_a) = (Ok (), tables_a) \<and>
    batch_entries update_without_target = [] @ UpdateE ?o ?n # [] \<and>
    for_each (process_entry fake) [] tables_a = (Ok (), tables_a)"
    using hc(3) be(3) build_tables_a by (simp add: update_without_target_def)
  have p4: "UpdateE ?o ?n = UpdateE ?o ?n \<and>
       (RecordType ?o = RecordTypeA \<and> aRecordsByDNSName tables_a (DNSName ?o) \<noteq> None \<and>
        (CHR ''.'' \<notin> set (DNSName ?n) \<or> Targets ?n = []) \<or>
        RecordType ?o = RecordTypeCNAME \<and> cnameRecordsByDNSName tables_a (DNSName ?o) \<noteq> None \<and>
        (Targets ?n = [] \<or>
         (\<exists>t ts ho. Targets ?n = t # ts \<and> aRecordsByDNSName tables_a t = Some ho \<and>
            CHR ''.'' \<notin> set (DNSName ?n))))"
    using ko by (simp add: ep_def)
  note D = ApplyChanges_panics [where hc = HasChanges and c = update_without_target and api = fake
      and w = "start fake_a" and stB = tables_a and pre = "[]" and e = "UpdateE ?o ?n"
      and post = "[]" and st = tables_a and x = ?o and y = ?n,
      THEN conjunct2, THEN mp, OF r4, THEN conjunct2, THEN mp, OF p4]
  have kx: "RecordType ?x = RecordTypeCNAME" "Targets ?x = []"
    by (simp_all add: ep_def RecordTypeCNAME_def)
  have kz: "RecordType ?z = RecordTypeA" "CHR ''.'' \<notin> set (DNSName ?z)"
    by (simp_all add: ep_def RecordTypeA_def)
  have r2: "HasChanges alias_without_target \<and>
    length (UpdateOld alias_without_target) \<le> length (UpdateNew alias_without_target) \<and>
    build_tables fake (start fake_a) = (Ok (), tables_a) \<and>
    batch_entries alias_without_target = [] @ CreateE ?x # [] \<and>
    for_each (process_entry fake) [] tables_a = (Ok (), tables_a)"
    using hc(1) be(1) build_tables_a by (simp add: alias_without_target_def)
  have p2: "CreateE ?x = CreateE ?x \<and>
       (RecordType ?x = RecordTypeA \<and> (CHR ''.'' \<notin> set (DNSName ?x) \<or> Targets ?x = []) \<or>
        RecordType ?x = RecordTypeCNAME \<and>
        (Targets ?x = [] \<or>
         (\<exists>t ts ho. Targets ?x = t # ts \<and> aRecordsByDNSName tables_a t = Some ho \<and>
            CHR ''.'' \<notin> set (DNSName ?x))))"
    using kx by simp
  note B = ApplyChanges_panics [where hc = HasChanges and c = alias_without_target and api = fake
      and w = "start fake_a" and stB = tables_a and pre = "[]" and e = "CreateE ?x"
      and post = "[]" and st = tables_a and x = ?x,
      THEN conjunct2, THEN mp, OF r2, THEN conjunct1, THEN mp, OF p2]
  have r3: "HasChanges name_without_dot \<and>
    length (UpdateOld name_without_dot) \<le> length (UpdateNew name_without_dot) \<and>
    build_tables fake (start fake_a) = (Ok (), tables_a) \<and>
    batch_entries name_without_dot = [] @ CreateE ?z # [] \<and>
    for_each (process_entry fake) [] tables_a = (Ok (), tables_a)"
    using hc(2) be(2) build_tables_a by (simp add: name_without_dot_def)
  have p3: "CreateE ?z = CreateE ?z \<and>
       (RecordType ?z = RecordTypeA \<and> (CHR ''.'' \<notin> set (DNSName ?z) \<or> Targets ?z = []) \<or>
        RecordType ?z = RecordTypeCNAME \<and>
        (Targets ?z = [] \<or>
         (\<exists>t ts ho. Targets ?z = t # ts \<and> aRecordsByDNSName tables_a t = Some ho \<and>
            CHR ''.'' \<notin> set (DNSName ?z))))"
    using kz by simp
  note C = ApplyChanges_panics [where hc = HasChanges and c = name_without_dot and api = fake
      and w = "start fake_a" and stB = tables_a and pre = "[]" and e = "CreateE ?z"
      and post = "[]" and st = tables_a and x = ?z,
      THEN conjunct2, THEN mp, OF r3, THEN conjunct1, THEN mp, OF p3]
  show ?thesis
    using u1 l1 A hc be kx kz ko B C D build_tables_a by (intro conjI)
qed

end
